theory Spec2Isabelle
  imports Main "HOL-Library.Sublist"
begin

section \<open>Python values, exceptions and the trace of outside calls\<close>

text \<open>
  The values that the vendor library hands to the integration: \<open>None\<close>, booleans,
  integers and strings. Floating point numbers are not modelled.
\<close>

datatype pyval = PyNone | PyBool bool | PyInt int | PyStr string

text \<open>
  Python's \<open>==\<close> on these values. A \<open>bool\<close> is an \<open>int\<close> in Python, so
  \<open>True == 1\<close> and \<open>False == 0\<close> hold; a string never equals a number.
\<close>

fun py_eq :: "pyval \<Rightarrow> pyval \<Rightarrow> bool" where
  "py_eq PyNone PyNone = True"
| "py_eq (PyBool a) (PyBool b) = (a = b)"
| "py_eq (PyBool a) (PyInt i) = ((if a then 1 else 0) = i)"
| "py_eq (PyInt i) (PyBool b) = (i = (if b then 1 else 0))"
| "py_eq (PyInt i) (PyInt j) = (i = j)"
| "py_eq (PyStr s) (PyStr t) = (s = t)"
| "py_eq _ _ = False"

text \<open>
  Exceptions carry their class and the text \<open>str(e)\<close>. \<open>UnicodeError\<close> stands for the
  subclasses of \<open>ValueError\<close>; \<open>CancelledError\<close> stands for the exceptions that derive
  from \<open>BaseException\<close> only, which \<open>except Exception\<close> does not catch.
\<close>

datatype exn_class =
  ValueError | UnicodeError | KeyError | TypeError | RuntimeError | CancelledError

datatype exn = Exn (exn_cls: exn_class) (exn_str: string)

definition isinstance_ValueError :: "exn \<Rightarrow> bool" where
  "isinstance_ValueError e = (exn_cls e = ValueError \<or> exn_cls e = UnicodeError)"

definition isinstance_Exception :: "exn \<Rightarrow> bool" where
  "isinstance_Exception e = (exn_cls e \<noteq> CancelledError)"

text \<open>
  Calls that leave the repository (into the host or into the vendor library) are recorded
  in a trace, next to the log records the code emits. What such a call does inside the
  host or the library is outside the model; whether it returns or raises is given by
  the environment \<open>env\<close>: \<open>env c = None\<close> when call \<open>c\<close> returns and \<open>Some e\<close> when it
  raises \<open>e\<close>.
\<close>

datatype level = Debug | Info | Warning | Error

datatype ext_call =
    AsyncWriteHaState
  | Send string
  | SyncCommand string string
  | SuperAsyncSetUpdatedData
  | CallSoonThreadsafe
  | AsyncForwardEntrySetups
  | AsyncGetClientsession
  | HonCreate
  | AsyncUpdateEntry
  | SuperInit
  | SubscribeUpdates
  | AsyncUnloadPlatforms
  | AsyncAddEntities
  | UniqueEntities

datatype event = Log level | Call ext_call

type_synonym env = "ext_call \<Rightarrow> exn option"

section \<open>The device object of the vendor library\<close>

text \<open>
  A setting is an object of class \<open>HonParameter\<close> (the base class, exactly), of class
  \<open>HonParameterRange\<close>, or of another subclass of \<open>HonParameter\<close>; the last may or may
  not carry an attribute \<open>min\<close>.
\<close>

datatype param =
    HonParameter (p_value: pyval)
  | HonParameterRange (p_value: pyval) (p_min: pyval) (p_max: pyval) (p_values: "pyval list")
  | OtherParameter (p_value: pyval) (p_min_attr: "pyval option")

text \<open>\<open>type(setting) == HonParameter\<close> and \<open>isinstance(setting, HonParameterRange)\<close>.\<close>

fun type_is_HonParameter :: "param \<Rightarrow> bool" where
  "type_is_HonParameter (HonParameter _) = True"
| "type_is_HonParameter _ = False"

fun isinstance_HonParameterRange :: "param \<Rightarrow> bool" where
  "isinstance_HonParameterRange (HonParameterRange _ _ _ _) = True"
| "isinstance_HonParameterRange _ = False"

text \<open>\<open>hasattr(setting, "min")\<close> with the attribute's value: \<open>None\<close> when there is none.\<close>

fun min_attr :: "param \<Rightarrow> pyval option" where
  "min_attr (HonParameter _) = None"
| "min_attr (HonParameterRange _ mn _ _) = Some mn"
| "min_attr (OtherParameter _ m) = m"

text \<open>
  The device. \<open>settings\<close> maps a setting's name to the object it refers to and \<open>objs\<close>
  holds the objects, so that two names may refer to one object. \<open>items\<close> is what
  \<open>device[item]\<close> yields (\<open>None\<close>: the lookup fails and \<open>get\<close> returns its default);
  \<open>commands\<close> lists the names of the device's commands.
\<close>

type_synonym addr = nat

record device =
  appliance_type :: string
  available_settings :: "string list"
  settings :: "string \<rightharpoonup> addr"
  objs :: "addr \<Rightarrow> param"
  items :: "string \<rightharpoonup> pyval"
  attributes :: "string \<rightharpoonup> pyval"
  commands :: "string list"
  connection :: bool

definition get :: "device \<Rightarrow> string \<Rightarrow> pyval \<Rightarrow> pyval" where
  "get d item dflt = (case items d item of None \<Rightarrow> dflt | Some v \<Rightarrow> v)"

text \<open>
  The truth value of a value, the number a value is in arithmetic (\<open>None\<close> where
  arithmetic on it raises \<open>TypeError\<close>), and the builtin \<open>int\<close>. What \<open>int\<close> makes of a
  string is a parameter: \<open>int_of_str s\<close> is \<open>None\<close> where \<open>int(s)\<close> raises \<open>ValueError\<close>.
\<close>

fun py_truthy :: "pyval \<Rightarrow> bool" where
  "py_truthy PyNone = False"
| "py_truthy (PyBool b) = b"
| "py_truthy (PyInt i) = (i \<noteq> 0)"
| "py_truthy (PyStr s) = (s \<noteq> [])"

fun py_num :: "pyval \<Rightarrow> int option" where
  "py_num (PyInt i) = Some i"
| "py_num (PyBool b) = Some (if b then 1 else 0)"
| "py_num _ = None"

fun py_int :: "(string \<Rightarrow> int option) \<Rightarrow> pyval \<Rightarrow> exn + int" where
  "py_int int_of_str (PyInt i) = Inr i"
| "py_int int_of_str (PyBool b) = Inr (if b then 1 else 0)"
| "py_int int_of_str (PyStr s) =
     (case int_of_str s of
        None \<Rightarrow> Inl (Exn ValueError (''invalid literal for int() with base 10: '' @ s))
      | Some i \<Rightarrow> Inr i)"
| "py_int int_of_str PyNone =
     Inl (Exn TypeError ''int() argument must be a string, a bytes-like object or a real number'')"

section \<open>Entity descriptions\<close>

datatype description =
    HonControlSwitchEntityDescription
      (key: string) (name: string) (icon: string)
      (turn_on_key: string) (turn_off_key: string) (translation_key: "string option")
  | HonSwitchEntityDescription
      (key: string) (name: string) (icon: string) (translation_key: "string option")
  | HonConfigSwitchEntityDescription
      (key: string) (name: string) (icon: string) (translation_key: "string option")
  | SwitchEntityDescription
      (key: string) (name: string) (icon: string) (translation_key: "string option")

section \<open>Running a method: state, trace, exceptions\<close>

text \<open>
  Every state carries the trace and the value of the module's global \<open>SWITCHES\<close>. The
  state an entity method works on holds, besides, the device the entity wraps, the entity's
  own \<open>_attr_is_on\<close>, and the vendor's code behind \<open>setting.value = v\<close>: \<open>value_setter\<close>
  takes the address of the setting object, the value and the device, and either raises or
  returns the device as the setter leaves it. A method returns \<open>None\<close> when it returns
  normally and \<open>Some e\<close> when it raises \<open>e\<close>; in both cases the state it leaves behind is
  returned too, since what was written before a raise stays written.
\<close>

record traced =
  trace :: "event list"
  global_SWITCHES :: "string \<rightharpoonup> description list"

record world = traced +
  dev :: device
  attr_is_on :: "bool option"
  value_setter :: "addr \<Rightarrow> pyval \<Rightarrow> device \<Rightarrow> exn + device"

type_synonym 's step = "'s \<Rightarrow> exn option \<times> 's"

definition log :: "level \<Rightarrow> ('a traced_scheme) step" where
  "log l w = (None, w\<lparr>trace := trace w @ [Log l]\<rparr>)"

definition call :: "env \<Rightarrow> ext_call \<Rightarrow> ('a traced_scheme) step" where
  "call env c w = (env c, w\<lparr>trace := trace w @ [Call c]\<rparr>)"

definition raise :: "exn \<Rightarrow> 's step" where
  "raise e w = (Some e, w)"

text \<open>Statements in sequence: the first raise ends the run.\<close>

fun run :: "'s step list \<Rightarrow> 's step" where
  "run [] w = (None, w)"
| "run (s # ss) w = (case s w of (Some e, w') \<Rightarrow> (Some e, w') | (None, w') \<Rightarrow> run ss w')"

text \<open>\<open>try: body except Exception as e: handler(e)\<close>.\<close>

definition try_except_Exception :: "'s step \<Rightarrow> (exn \<Rightarrow> 's step) \<Rightarrow> 's step" where
  "try_except_Exception body handler w =
     (case body w of
        (None, w') \<Rightarrow> (None, w')
      | (Some e, w') \<Rightarrow> if isinstance_Exception e then handler e w' else (Some e, w'))"

text \<open>\<open>d[k]\<close> on a dictionary with string keys: the value, or \<open>KeyError\<close>.\<close>

definition getitem :: "(string \<rightharpoonup> 'v) \<Rightarrow> string \<Rightarrow> exn + 'v" where
  "getitem m k = (case m k of None \<Rightarrow> Inl (Exn KeyError k) | Some v \<Rightarrow> Inr v)"

text \<open>\<open>self._device.commands[k].send()\<close>: \<open>KeyError\<close> when there is no such command.\<close>

definition send_command :: "env \<Rightarrow> string \<Rightarrow> world step" where
  "send_command env k w =
     (if k \<in> set (commands (dev w)) then call env (Send k) w else raise (Exn KeyError k) w)"

text \<open>
  \<open>setting.value = v\<close> for the object at an address: the vendor's setter runs. When it
  raises, the exception goes on and the device is as it was.
\<close>

definition assign_value :: "addr \<Rightarrow> pyval \<Rightarrow> world step" where
  "assign_value a v w =
     (case value_setter w a v (dev w) of
        Inl e \<Rightarrow> (Some e, w)
      | Inr d \<Rightarrow> (None, w\<lparr>dev := d\<rparr>))"

text \<open>\<open>self._device.attributes[k] = v\<close>.\<close>

definition assign_attribute :: "string \<Rightarrow> pyval \<Rightarrow> world step" where
  "assign_attribute k v w =
     (None, w\<lparr>dev := (dev w)\<lparr>attributes := (attributes (dev w))(k \<mapsto> v)\<rparr>\<rparr>)"

section \<open>\<open>HonDataUpdateCoordinator.async_set_updated_data\<close>\<close>

text \<open>
  Two log records, the base class's method inside \<open>try\<close>, and a handler that logs at
  error level and raises again.
\<close>

definition HonDataUpdateCoordinator_async_set_updated_data ::
  "env \<Rightarrow> ('a traced_scheme) step" where
  "HonDataUpdateCoordinator_async_set_updated_data env =
     run [log Debug, log Info,
          try_except_Exception
            (run [call env SuperAsyncSetUpdatedData, log Debug])
            (\<lambda>e. run [log Error, raise e])]"

section \<open>\<open>HonSwitchEntity\<close>\<close>

definition HonSwitchEntity_is_on_value :: "device \<Rightarrow> description \<Rightarrow> bool" where
  "HonSwitchEntity_is_on_value d desc = py_eq (get d (key desc) (PyInt 0)) (PyInt 1)"

text \<open>The property as a step: it computes the result and writes one debug record.\<close>

definition HonSwitchEntity_is_on :: "description \<Rightarrow> world \<Rightarrow> (exn + bool) \<times> world" where
  "HonSwitchEntity_is_on desc w =
     (let result = HonSwitchEntity_is_on_value (dev w) desc
      in (Inr result, snd (log Debug w)))"

definition HonSwitchEntity_async_turn_on :: "env \<Rightarrow> description \<Rightarrow> world step" where
  "HonSwitchEntity_async_turn_on env desc =
     run [log Debug,
          (\<lambda>w. case getitem (settings (dev w)) (''settings.'' @ key desc) of
                  Inl e \<Rightarrow> raise e w
                | Inr a \<Rightarrow>
                    let setting = objs (dev w) a in
                    if type_is_HonParameter setting then log Warning w
                    else run [assign_value a
                                (if isinstance_HonParameterRange setting
                                 then p_max setting else PyInt 1),
                              call env AsyncWriteHaState,
                              send_command env ''settings'',
                              HonDataUpdateCoordinator_async_set_updated_data env,
                              log Debug] w)]"

definition HonSwitchEntity_async_turn_off :: "env \<Rightarrow> description \<Rightarrow> world step" where
  "HonSwitchEntity_async_turn_off env desc =
     run [log Debug,
          (\<lambda>w. case getitem (settings (dev w)) (''settings.'' @ key desc) of
                  Inl e \<Rightarrow> raise e w
                | Inr a \<Rightarrow>
                    let setting = objs (dev w) a in
                    if type_is_HonParameter setting then log Warning w
                    else run [assign_value a
                                (if isinstance_HonParameterRange setting
                                 then p_min setting else PyInt 0),
                              call env AsyncWriteHaState,
                              send_command env ''settings'',
                              HonDataUpdateCoordinator_async_set_updated_data env,
                              log Debug] w)]"

text \<open>
  \<open>available\<close>. \<open>super_available\<close> is what \<open>super().available\<close> returns (the base
  classes are the host's).
\<close>

definition HonSwitchEntity_available ::
  "bool \<Rightarrow> description \<Rightarrow> world \<Rightarrow> (exn + bool) \<times> world" where
  "HonSwitchEntity_available super_available desc w =
     (if \<not> super_available then (Inr False, snd (log Debug w))
      else if \<not> py_eq (get (dev w) ''remoteCtrValid'' (PyInt 1)) (PyInt 1)
        then (Inr False, snd (log Debug w))
      else if py_eq (get (dev w) ''attributes.lastConnEvent.category'' PyNone)
                    (PyStr ''DISCONNECTED'')
        then (Inr False, snd (log Debug w))
      else case getitem (settings (dev w)) (''settings.'' @ key desc) of
             Inl e \<Rightarrow> (Inl e, w)
           | Inr a \<Rightarrow>
               let setting = objs (dev w) a in
               if isinstance_HonParameterRange setting \<and> length (p_values setting) < 2
               then (Inr False, snd (log Debug w))
               else (Inr True, snd (log Debug w)))"

text \<open>\<open>self._attr_is_on = self.is_on\<close> for a property that may raise.\<close>

definition store_is_on :: "(world \<Rightarrow> (exn + bool) \<times> world) \<Rightarrow> world step" where
  "store_is_on is_on w =
     (case is_on w of
        (Inl e, w') \<Rightarrow> (Some e, w')
      | (Inr b, w') \<Rightarrow> (None, w'\<lparr>attr_is_on := Some b\<rparr>))"

definition HonSwitchEntity_handle_coordinator_update ::
  "env \<Rightarrow> description \<Rightarrow> bool \<Rightarrow> world step" where
  "HonSwitchEntity_handle_coordinator_update env desc update =
     run [log Debug,
          try_except_Exception
            (run [store_is_on (HonSwitchEntity_is_on desc),
                  log Debug,
                  (\<lambda>w. if update
                        then run [log Debug, call env AsyncWriteHaState, log Debug] w
                        else (None, w))])
            (\<lambda>e. log Error)]"

section \<open>\<open>HonControlSwitchEntity\<close>\<close>

definition HonControlSwitchEntity_is_on :: "description \<Rightarrow> world \<Rightarrow> (exn + pyval) \<times> world" where
  "HonControlSwitchEntity_is_on desc w =
     (let result = get (dev w) (key desc) (PyBool False)
      in (Inr result, snd (log Debug w)))"

definition HonControlSwitchEntity_async_turn_on :: "env \<Rightarrow> description \<Rightarrow> world step" where
  "HonControlSwitchEntity_async_turn_on env desc =
     run [log Debug,
          call env (SyncCommand (turn_on_key desc) ''settings''),
          HonDataUpdateCoordinator_async_set_updated_data env,
          send_command env (turn_on_key desc),
          assign_attribute (key desc) (PyBool True),
          call env AsyncWriteHaState,
          log Debug]"

definition HonControlSwitchEntity_async_turn_off :: "env \<Rightarrow> description \<Rightarrow> world step" where
  "HonControlSwitchEntity_async_turn_off env desc =
     run [log Debug,
          call env (SyncCommand (turn_off_key desc) ''settings''),
          HonDataUpdateCoordinator_async_set_updated_data env,
          send_command env (turn_off_key desc),
          assign_attribute (key desc) (PyBool False),
          call env AsyncWriteHaState,
          log Debug]"

text \<open>
  \<open>available\<close>. The result is \<open>super().available and int(...) == 1 and
  self._device.connection\<close>; \<open>int\<close> is reached only when \<open>super().available\<close> holds.
\<close>

definition HonControlSwitchEntity_available ::
  "(string \<Rightarrow> int option) \<Rightarrow> bool \<Rightarrow> world \<Rightarrow> (exn + bool) \<times> world" where
  "HonControlSwitchEntity_available int_of_str super_available w =
     (if \<not> super_available then (Inr False, snd (log Debug w))
      else case py_int int_of_str (get (dev w) ''remoteCtrValid'' (PyInt 1)) of
             Inl e \<Rightarrow> (Inl e, w)
           | Inr i \<Rightarrow> (Inr (i = 1 \<and> connection (dev w)), snd (log Debug w)))"

text \<open>
  \<open>extra_state_attributes\<close>. Times are minutes; \<open>now1\<close> and \<open>now2\<close> are what the two calls
  of \<open>datetime.now()\<close> return. \<open>timedelta\<close> and \<open>+\<close> raise \<open>TypeError\<close> on a value that is
  not a number.
\<close>

definition HonControlSwitchEntity_extra_state_attributes ::
  "int \<Rightarrow> int \<Rightarrow> world \<Rightarrow> (exn + (string \<rightharpoonup> int)) \<times> world" where
  "HonControlSwitchEntity_extra_state_attributes now1 now2 w =
     (let remaining_time = get (dev w) ''remainingTimeMM'' (PyInt 0) in
      if \<not> py_truthy remaining_time then (Inr Map.empty, w)
      else
        let delay_time = get (dev w) ''delayTime'' (PyInt 0) in
        case py_num delay_time of
          None \<Rightarrow> (Inl (Exn TypeError ''unsupported type for timedelta minutes component''), w)
        | Some d \<Rightarrow>
            (case py_num remaining_time of
               None \<Rightarrow> (Inl (Exn TypeError ''unsupported operand type(s) for +''), w)
             | Some r \<Rightarrow>
                 (Inr [''start_time'' \<mapsto> now1 + d, ''end_time'' \<mapsto> now2 + (d + r)],
                  snd (log Debug w))))"

section \<open>\<open>HonConfigSwitchEntity\<close>\<close>

definition HonConfigSwitchEntity_is_on :: "description \<Rightarrow> world \<Rightarrow> (exn + bool) \<times> world" where
  "HonConfigSwitchEntity_is_on desc w =
     (case getitem (settings (dev w)) (key desc) of
        Inl e \<Rightarrow> (Inl e, w)
      | Inr a \<Rightarrow>
          let setting = objs (dev w) a;
              result = (case min_attr setting of
                          Some mn \<Rightarrow> \<not> py_eq (p_value setting) mn
                        | None \<Rightarrow> py_eq (p_value setting) (PyStr ''1''))
          in (Inr result, snd (log Debug w)))"

definition HonConfigSwitchEntity_async_turn_on :: "env \<Rightarrow> description \<Rightarrow> world step" where
  "HonConfigSwitchEntity_async_turn_on env desc =
     run [log Debug,
          (\<lambda>w. case getitem (settings (dev w)) (key desc) of
                  Inl e \<Rightarrow> raise e w
                | Inr a \<Rightarrow>
                    let setting = objs (dev w) a in
                    if type_is_HonParameter setting then log Warning w
                    else run [assign_value a
                                (if isinstance_HonParameterRange setting
                                 then p_max setting else PyStr ''1''),
                              HonDataUpdateCoordinator_async_set_updated_data env,
                              call env AsyncWriteHaState,
                              log Debug] w)]"

definition HonConfigSwitchEntity_async_turn_off :: "env \<Rightarrow> description \<Rightarrow> world step" where
  "HonConfigSwitchEntity_async_turn_off env desc =
     run [log Debug,
          (\<lambda>w. case getitem (settings (dev w)) (key desc) of
                  Inl e \<Rightarrow> raise e w
                | Inr a \<Rightarrow>
                    let setting = objs (dev w) a in
                    if type_is_HonParameter setting then log Warning w
                    else run [assign_value a
                                (if isinstance_HonParameterRange setting
                                 then p_min setting else PyStr ''0''),
                              HonDataUpdateCoordinator_async_set_updated_data env,
                              call env AsyncWriteHaState,
                              log Debug] w)]"

definition HonConfigSwitchEntity_handle_coordinator_update ::
  "env \<Rightarrow> description \<Rightarrow> bool \<Rightarrow> world step" where
  "HonConfigSwitchEntity_handle_coordinator_update env desc update =
     run [log Debug,
          try_except_Exception
            (run [store_is_on (HonConfigSwitchEntity_is_on desc),
                  log Debug,
                  (\<lambda>w. if update
                        then run [log Debug, call env AsyncWriteHaState, log Debug] w
                        else (None, w))])
            (\<lambda>e. log Error)]"

section \<open>The table \<open>SWITCHES\<close> and the platform setup\<close>

text \<open>
  The dictionary literal, in the order of the source. Strings are byte strings in UTF-8:
  the one name that is not ASCII is written with its bytes.
\<close>

definition SWITCHES_literal :: "(string \<times> description list) list" where
  "SWITCHES_literal = [
    (''WM'',
      [
       HonControlSwitchEntityDescription ''active'' ''Washing Machine''
         ''mdi:washing-machine'' ''startProgram'' ''stopProgram''
         (Some ''washing_machine''),
       HonControlSwitchEntityDescription ''pause'' ''Pause Washing Machine''
         ''mdi:pause'' ''pauseProgram'' ''resumeProgram''
         (Some ''pause''),
       HonConfigSwitchEntityDescription ''startProgram.delayStatus'' ''Delay Status''
         ''mdi:timer-check'' (Some ''delay_time''),
       HonConfigSwitchEntityDescription ''startProgram.haier_SoakPrewashSelection'' ''Soak Prewash Selection''
         ''mdi:tshirt-crew'' (Some ''prewash''),
       HonConfigSwitchEntityDescription ''startProgram.prewash'' ''Prewash''
         ''mdi:tshirt-crew'' (Some ''prewash''),
       HonConfigSwitchEntityDescription ''startProgram.permanentPressStatus'' ''Keep Fresh''
         ''mdi:refresh-circle'' (Some ''keep_fresh''),
       HonConfigSwitchEntityDescription ''startProgram.autoSoftenerStatus'' ''Auto Dose Softener''
         ''mdi:teddy-bear'' (Some ''auto_dose_softener''),
       HonConfigSwitchEntityDescription ''startProgram.autoDetergentStatus'' ''Auto Dose Detergent''
         ''mdi:cup'' (Some ''auto_dose_detergent''),
       HonSwitchEntityDescription ''autoSoftenerStatus'' ''Auto Dose Softener''
         ''mdi:teddy-bear'' (Some ''auto_dose_softener''),
       HonSwitchEntityDescription ''autoDetergentStatus'' ''Auto Dose Detergent''
         ''mdi:cup'' (Some ''auto_dose_detergent''),
       HonConfigSwitchEntityDescription ''startProgram.acquaplus'' ''Acqua Plus''
         ''mdi:water-plus'' (Some ''acqua_plus''),
       HonConfigSwitchEntityDescription ''startProgram.extraRinse1'' ''Extra Rinse 1''
         ''mdi:numeric-1-box-multiple-outline'' (Some ''extra_rinse_1''),
       HonConfigSwitchEntityDescription ''startProgram.extraRinse2'' ''Extra Rinse 2''
         ''mdi:numeric-2-box-multiple-outline'' (Some ''extra_rinse_2''),
       HonConfigSwitchEntityDescription ''startProgram.extraRinse3'' ''Extra Rinse 3''
         ''mdi:numeric-3-box-multiple-outline'' (Some ''extra_rinse_3''),
       HonConfigSwitchEntityDescription ''startProgram.goodNight'' ''Good Night''
         ''mdi:weather-night'' (Some ''good_night''),
       HonConfigSwitchEntityDescription ''startProgram.hygiene'' ''Hygiene''
         ''mdi:lotion-plus'' (Some ''hygiene''),
       HonConfigSwitchEntityDescription ''startProgram.anticrease'' ''Anti-Crease''
         ''mdi:iron'' (Some ''anti_crease'')
      ]),
    (''TD'',
      [
       HonControlSwitchEntityDescription ''active'' ''Tumble Dryer''
         ''mdi:tumble-dryer'' ''startProgram'' ''stopProgram''
         (Some ''tumble_dryer''),
       HonControlSwitchEntityDescription ''pause'' ''Pause Tumble Dryer''
         ''mdi:pause'' ''pauseProgram'' ''resumeProgram''
         (Some ''pause''),
       HonConfigSwitchEntityDescription ''startProgram.sterilizationStatus'' ''Sterilization''
         ''mdi:lotion-plus'' None,
       HonConfigSwitchEntityDescription ''startProgram.tumblingStatus'' ''Tumbling''
         ''mdi:refresh-circle'' (Some ''keep_fresh''),
       HonConfigSwitchEntityDescription ''startProgram.antiCreaseTime'' ''Anti-Crease''
         ''mdi:iron'' (Some ''anti_crease''),
       HonConfigSwitchEntityDescription ''startProgram.anticrease'' ''Anti-Crease''
         ''mdi:iron'' (Some ''anti_crease'')
      ]),
    (''OV'',
      [
       HonControlSwitchEntityDescription ''active'' ''Oven''
         ''mdi:toaster-oven'' ''startProgram'' ''stopProgram''
         (Some ''oven''),
       HonConfigSwitchEntityDescription ''startProgram.preheatStatus'' ''Preheat''
         ''mdi:thermometer-chevron-up'' (Some ''preheat'')
      ]),
    (''WD'',
      [
       HonControlSwitchEntityDescription ''active'' ''Washer Dryer''
         ''mdi:washing-machine'' ''startProgram'' ''stopProgram''
         (Some ''washer_dryer''),
       HonControlSwitchEntityDescription ''pause'' ''Pause Washer Dryer''
         ''mdi:pause'' ''pauseProgram'' ''resumeProgram''
         (Some ''pause'')
      ]),
    (''DW'',
      [
       HonControlSwitchEntityDescription ''active'' ''Dish Washer''
         ''mdi:dishwasher'' ''startProgram'' ''stopProgram''
         (Some ''dish_washer''),
       HonConfigSwitchEntityDescription ''startProgram.extraDry'' ''Extra Dry''
         ''mdi:hair-dryer'' (Some ''extra_dry''),
       HonConfigSwitchEntityDescription ''startProgram.halfLoad'' ''Half Load''
         ''mdi:fraction-one-half'' (Some ''half_load''),
       HonConfigSwitchEntityDescription ''startProgram.openDoor'' ''Open Door''
         ''mdi:door-open'' (Some ''open_door''),
       HonConfigSwitchEntityDescription ''startProgram.threeInOne'' ''Three in One''
         ''mdi:numeric-3-box-outline'' (Some ''three_in_one''),
       HonConfigSwitchEntityDescription ''startProgram.ecoExpress'' ''Eco Express''
         ''mdi:sprout'' (Some ''eco''),
       HonConfigSwitchEntityDescription ''startProgram.addDish'' ''Add Dish''
         ''mdi:silverware-fork-knife'' (Some ''add_dish''),
       HonSwitchEntityDescription ''buzzerDisabled'' ''Buzzer Disabled''
         ''mdi:volume-off'' (Some ''buzzer''),
       HonConfigSwitchEntityDescription ''startProgram.tabStatus'' ''Tab Status''
         ''mdi:silverware-clean'' None
      ]),
    (''AC'',
      [
       HonSwitchEntityDescription ''10degreeHeatingStatus'' (''10'' @ [CHR 0xC3, CHR 0x82, CHR 0xC2, CHR 0xB0] @ '' Heating'')
         ''mdi:heat-wave'' (Some ''10_degree_heating''),
       HonSwitchEntityDescription ''echoStatus'' ''Echo''
         ''mdi:account-voice'' None,
       HonSwitchEntityDescription ''ecoMode'' ''Eco Mode''
         ''mdi:sprout'' (Some ''eco_mode''),
       HonSwitchEntityDescription ''healthMode'' ''Health Mode''
         ''mdi:medication-outline'' None,
       HonSwitchEntityDescription ''muteStatus'' ''Silent Mode''
         ''mdi:volume-off'' (Some ''silent_mode''),
       HonSwitchEntityDescription ''rapidMode'' ''Rapid Mode''
         ''mdi:run-fast'' (Some ''rapid_mode''),
       HonSwitchEntityDescription ''screenDisplayStatus'' ''Screen Display''
         ''mdi:monitor-small'' None,
       HonSwitchEntityDescription ''selfCleaning56Status'' ''Self Cleaning 56''
         ''mdi:air-filter'' (Some ''self_clean_56''),
       HonSwitchEntityDescription ''selfCleaningStatus'' ''Self Cleaning''
         ''mdi:air-filter'' (Some ''self_clean''),
       HonSwitchEntityDescription ''silentSleepStatus'' ''Night Mode''
         ''mdi:bed'' (Some ''night_mode'')
      ]),
    (''REF'',
      [
       HonSwitchEntityDescription ''intelligenceMode'' ''Auto-Set Mode''
         ''mdi:thermometer-auto'' (Some ''auto_set''),
       HonSwitchEntityDescription ''quickModeZ2'' ''Super Freeze''
         ''mdi:snowflake-variant'' (Some ''super_freeze''),
       HonSwitchEntityDescription ''quickModeZ1'' ''Super Cool''
         ''mdi:snowflake'' (Some ''super_cool'')
      ]),
    (''WC'',
      [
       HonSwitchEntityDescription ''sabbathStatus'' ''Sabbath Mode''
         ''mdi:palm-tree'' (Some ''holiday_mode'')
      ]),
    (''HO'',
      [
       HonControlSwitchEntityDescription ''onOffStatus'' ''Hood''
         ''mdi:hvac'' ''startProgram'' ''stopProgram''
         (Some ''hood'')
      ]),
    (''AP'',
      [
       HonSwitchEntityDescription ''touchToneStatus'' ''Touch Tone''
         ''mdi:account-voice'' (Some ''touch_tone'')
      ]),
    (''FRE'',
      [
       HonSwitchEntityDescription ''quickModeZ2'' ''Super Freeze''
         ''mdi:snowflake-variant'' (Some ''super_freeze''),
       HonSwitchEntityDescription ''quickModeZ1'' ''Super Cool''
         ''mdi:snowflake'' (Some ''super_cool'')
      ])
  ]"

text \<open>
  The module's top level: the literal is bound to \<open>SWITCHES\<close>, then come the two
  assignments to \<open>SWITCHES["WD"]\<close>. \<open>unique_entities\<close> is a function of \<open>util.py\<close>, which
  is not among the sources at hand: each call of it is an outside call, and what it
  returns is given by the parameter \<open>unique\<close>.
\<close>

definition assign_unique_entities ::
  "env \<Rightarrow> (description list \<Rightarrow> description list \<Rightarrow> description list)
   \<Rightarrow> string \<Rightarrow> string \<Rightarrow> ('a traced_scheme) step" where
  "assign_unique_entities env unique k k' w =
     (case getitem (global_SWITCHES w) k of
        Inl e \<Rightarrow> raise e w
      | Inr base_entities \<Rightarrow>
          (case getitem (global_SWITCHES w) k' of
             Inl e \<Rightarrow> raise e w
           | Inr new_entities \<Rightarrow>
               (case call env UniqueEntities w of
                  (Some e, w') \<Rightarrow> (Some e, w')
                | (None, w') \<Rightarrow>
                    (None, w'\<lparr>global_SWITCHES :=
                       (global_SWITCHES w')(k \<mapsto> unique base_entities new_entities)\<rparr>))))"

definition module_load ::
  "env \<Rightarrow> (description list \<Rightarrow> description list \<Rightarrow> description list)
   \<Rightarrow> ('a traced_scheme) step" where
  "module_load env unique =
     run [(\<lambda>w. (None, w\<lparr>global_SWITCHES := map_of SWITCHES_literal\<rparr>)),
          assign_unique_entities env unique ''WD'' ''WM'',
          assign_unique_entities env unique ''WD'' ''TD'']"

datatype entity =
    HonConfigSwitchEntity (entity_device: device) (entity_description: description)
  | HonControlSwitchEntity (entity_device: device) (entity_description: description)
  | HonSwitchEntity (entity_device: device) (entity_description: description)

text \<open>
  The body of the inner loop of the platform's \<open>async_setup_entry\<close>: the entity appended
  for a device and a description, or \<open>None\<close> where the loop goes on without one.
\<close>

fun make_entity :: "device \<Rightarrow> description \<Rightarrow> entity option" where
  "make_entity device (HonConfigSwitchEntityDescription k n i t) =
     (let description = HonConfigSwitchEntityDescription k n i t in
      if key description \<notin> set (available_settings device) then None
      else Some (HonConfigSwitchEntity device description))"
| "make_entity device (HonControlSwitchEntityDescription k n i on off t) =
     (let description = HonControlSwitchEntityDescription k n i on off t in
      if \<not> (get device (key description) PyNone \<noteq> PyNone
             \<or> turn_on_key description \<in> set (commands device)
             \<or> turn_off_key description \<in> set (commands device)) then None
      else Some (HonControlSwitchEntity device description))"
| "make_entity device (HonSwitchEntityDescription k n i t) =
     (let description = HonSwitchEntityDescription k n i t in
      if ''settings.'' @ key description \<notin> set (available_settings device) then None
      else Some (HonSwitchEntity device description))"
| "make_entity device (SwitchEntityDescription k n i t) = None"

text \<open>
  The platform's \<open>async_setup_entry\<close>: the list handed to \<open>async_add_entities\<close>, for the
  value of the global \<open>SWITCHES\<close> and the appliances of the client.
\<close>

definition switch_async_setup_entry ::
  "(string \<rightharpoonup> description list) \<Rightarrow> device list \<Rightarrow> entity list" where
  "switch_async_setup_entry SWITCHES appliances =
     concat (map (\<lambda>device.
                    List.map_filter (make_entity device)
                      (case SWITCHES (appliance_type device) of None \<Rightarrow> [] | Some ds \<Rightarrow> ds))
                 appliances)"

section \<open>The integration's setup (\<open>__init__.py\<close>)\<close>

text \<open>
  The constants of \<open>const.py\<close> and of the host, which are not among the sources at hand,
  are parameters.
\<close>

record constants =
  DOMAIN :: string
  PLATFORMS :: "string list"
  MOBILE_ID :: string
  CONF_REFRESH_TOKEN :: string
  CONF_EMAIL :: string
  CONF_PASSWORD :: string

text \<open>The client object that \<open>Hon(...).create()\<close> returns.\<close>

record Hon =
  refresh_token :: string
  appliances :: "device list"

text \<open>
  What \<open>async_setup_entry\<close> stores per entry, under the keys \<open>"hon"\<close> and
  \<open>"coordinator"\<close>. A coordinator is known by its position in
  the list of the coordinators constructed so far.
\<close>

record entry_objects =
  stored_hon :: Hon
  stored_coordinator :: nat

text \<open>
  The host's state as far as the setup touches it: the configuration directory, the
  entry's data and unique id, \<open>hass.data\<close>, the coordinators constructed, the callbacks
  subscribed to the client (each known by the coordinator it closes over), and the
  callbacks scheduled on the event loop and not yet run, and the entities handed to
  \<open>async_add_entities\<close>.
\<close>

record hass = traced +
  config_dir :: "string option"
  entry_data :: "string \<rightharpoonup> pyval"
  entry_unique_id :: "string option"
  hass_data :: "string \<rightharpoonup> (string option \<rightharpoonup> entry_objects)"
  coordinators :: "string list"
  subscribers :: "nat list"
  loop_queue :: "nat list"
  added_entities :: "entity list"

text \<open>\<open>HonDataUpdateCoordinator.__init__\<close>.\<close>

definition HonDataUpdateCoordinator_init :: "env \<Rightarrow> string \<Rightarrow> hass step" where
  "HonDataUpdateCoordinator_init env name' =
     run [call env SuperInit,
          (\<lambda>h. (None, h\<lparr>coordinators := coordinators h @ [name']\<rparr>)),
          log Info]"

text \<open>
  \<open>hass.loop.call_soon_threadsafe(callback)\<close>: the host puts the callback on the loop's
  queue and returns, or raises and schedules nothing. The callback is not run here.
\<close>

definition call_soon_threadsafe :: "env \<Rightarrow> nat \<Rightarrow> hass step" where
  "call_soon_threadsafe env callback h =
     (case call env CallSoonThreadsafe h of
        (None, h') \<Rightarrow> (None, h'\<lparr>loop_queue := loop_queue h' @ [callback]\<rparr>)
      | (Some e, h') \<Rightarrow> (Some e, h'))"

text \<open>
  The function \<open>wrapper\<close> that \<open>make_threadsafe_callback(hass, coordinator)\<close> returns. The
  scheduled lambda calls \<open>async_set_updated_data\<close> of the coordinator when the loop runs it.
\<close>

definition make_threadsafe_callback :: "env \<Rightarrow> nat \<Rightarrow> hass step" where
  "make_threadsafe_callback env coordinator =
     run [log Debug,
          try_except_Exception
            (run [call_soon_threadsafe env coordinator, log Debug])
            (\<lambda>e. log Error)]"

definition async_forward_entry_setups_with_error_handling :: "env \<Rightarrow> hass step" where
  "async_forward_entry_setups_with_error_handling env h =
     (case run [log Debug, call env AsyncForwardEntrySetups, log Debug] h of
        (None, h') \<Rightarrow> (None, h')
      | (Some e, h') \<Rightarrow>
          if isinstance_ValueError e then
            (if sublist ''has already been setup'' (exn_str e) then log Debug h'
             else run [log Error, raise e] h')
          else if isinstance_Exception e then run [log Error, raise e] h'
          else (Some e, h'))"

text \<open>
  The integration's \<open>async_setup_entry\<close>. \<open>created\<close> is the client that
  \<open>Hon(...).create()\<close> returns when it returns.
\<close>

definition async_setup_entry :: "env \<Rightarrow> constants \<Rightarrow> Hon \<Rightarrow> hass \<Rightarrow> (exn + bool) \<times> hass" where
  "async_setup_entry env cs created h =
     (case
        run [log Info,
             call env AsyncGetClientsession,
             (\<lambda>h. if config_dir h = None then raise (Exn ValueError ''Missing Config Dir'') h
                   else (None, h)),
             try_except_Exception
               (run [(\<lambda>h. case getitem (entry_data h) (CONF_EMAIL cs) of
                             Inl e \<Rightarrow> raise e h | Inr email \<Rightarrow> (None, h)),
                     (\<lambda>h. case getitem (entry_data h) (CONF_PASSWORD cs) of
                             Inl e \<Rightarrow> raise e h | Inr password \<Rightarrow> (None, h)),
                     call env HonCreate,
                     log Info])
               (\<lambda>e. run [log Error, raise e]),
             (\<lambda>h. case call env AsyncUpdateEntry h of
                     (None, h') \<Rightarrow>
                       (None, h'\<lparr>entry_data :=
                                  (entry_data h')(CONF_REFRESH_TOKEN cs \<mapsto>
                                                    PyStr (refresh_token created))\<rparr>)
                   | (Some e, h') \<Rightarrow> (Some e, h')),
             (\<lambda>h. let coordinator = length (coordinators h) in
                   run [HonDataUpdateCoordinator_init env (DOMAIN cs),
                        log Info,
                        run (map (\<lambda>appliance. log Debug) (appliances created)),
                        (\<lambda>h. case call env SubscribeUpdates h of
                                (None, h') \<Rightarrow>
                                  (None, h'\<lparr>subscribers := subscribers h' @ [coordinator]\<rparr>)
                              | (Some e, h') \<Rightarrow> (Some e, h')),
                        log Info,
                        (\<lambda>h. let domain_data =
                                    (case hass_data h (DOMAIN cs) of
                                       None \<Rightarrow> Map.empty | Some m \<Rightarrow> m)
                              in (None, h\<lparr>hass_data :=
                                   (hass_data h)(DOMAIN cs \<mapsto>
                                     domain_data(entry_unique_id h \<mapsto>
                                       \<lparr>stored_hon = created, stored_coordinator = coordinator\<rparr>))\<rparr>)),
                        log Info,
                        async_forward_entry_setups_with_error_handling env,
                        log Info] h)] h
      of (None, h') \<Rightarrow> (Inr True, h')
       | (Some e, h') \<Rightarrow> (Inl e, h'))"

text \<open>
  \<open>hass.data[DOMAIN][entry.unique_id]\<close>: the objects stored for the entry, or \<open>KeyError\<close>
  from the first or the second subscript.
\<close>

definition entry_objects_of :: "constants \<Rightarrow> hass \<Rightarrow> exn + entry_objects" where
  "entry_objects_of cs h =
     (case getitem (hass_data h) (DOMAIN cs) of
        Inl e \<Rightarrow> Inl e
      | Inr domain_data \<Rightarrow>
          (case domain_data (entry_unique_id h) of
             None \<Rightarrow>
               Inl (Exn KeyError (case entry_unique_id h of None \<Rightarrow> ''None'' | Some u \<Rightarrow> u))
           | Some objects \<Rightarrow> Inr objects))"

text \<open>
  \<open>async_unload_entry\<close>. \<open>unload\<close> is what \<open>async_unload_platforms\<close> returns when it
  returns.
\<close>

definition async_unload_entry ::
  "env \<Rightarrow> constants \<Rightarrow> bool \<Rightarrow> hass \<Rightarrow> (exn + bool) \<times> hass" where
  "async_unload_entry env cs unload h =
     (case
        run [log Info,
             (\<lambda>h. case entry_objects_of cs h of
                     Inl e \<Rightarrow> raise e h
                   | Inr objects \<Rightarrow>
                       (case call env AsyncUpdateEntry h of
                          (None, h') \<Rightarrow>
                            (None, h'\<lparr>entry_data :=
                               (entry_data h')(CONF_REFRESH_TOKEN cs \<mapsto>
                                  PyStr (refresh_token (stored_hon objects)))\<rparr>)
                        | (Some e, h') \<Rightarrow> (Some e, h'))),
             call env AsyncUnloadPlatforms,
             (\<lambda>h. if unload then
                     (case getitem (hass_data h) (DOMAIN cs) of
                        Inl e \<Rightarrow> raise e h
                      | Inr domain_data \<Rightarrow>
                          if domain_data = Map.empty
                          then log Info (h\<lparr>hass_data := (hass_data h)(DOMAIN cs := None)\<rparr>)
                          else (None, h))
                   else (None, h)),
             log Info] h
      of (None, h') \<Rightarrow> (Inr unload, h')
       | (Some e, h') \<Rightarrow> (Inl e, h'))"

text \<open>
  The platform's \<open>async_setup_entry\<close> as an operation: it reads the client stored for the
  entry and the global \<open>SWITCHES\<close>, builds the list of entities and hands it to
  \<open>async_add_entities\<close>.
\<close>

definition platform_async_setup_entry :: "env \<Rightarrow> constants \<Rightarrow> hass step" where
  "platform_async_setup_entry env cs h =
     (case entry_objects_of cs h of
        Inl e \<Rightarrow> raise e h
      | Inr objects \<Rightarrow>
          (let entities = switch_async_setup_entry (global_SWITCHES h)
                            (appliances (stored_hon objects))
           in case call env AsyncAddEntities h of
                (None, h') \<Rightarrow> (None, h'\<lparr>added_entities := added_entities h' @ entities\<rparr>)
              | (Some e, h') \<Rightarrow> (Some e, h')))"

section \<open>Properties of operations\<close>

text \<open>An operation that returns a value, seen as a step: what it raised, if it raised.\<close>

definition outcome :: "('s \<Rightarrow> (exn + 'r) \<times> 's) \<Rightarrow> 's step" where
  "outcome op w = (case op w of (Inl e, w') \<Rightarrow> (Some e, w') | (Inr r, w') \<Rightarrow> (None, w'))"

text \<open>An operation leaves the global \<open>SWITCHES\<close> as it found it, from every state.\<close>

definition keeps_SWITCHES :: "('a traced_scheme \<Rightarrow> 'r \<times> 'a traced_scheme) \<Rightarrow> bool" where
  "keeps_SWITCHES op = (\<forall>w. global_SWITCHES (snd (op w)) = global_SWITCHES w)"

text \<open>
  The result of a step run from a state lets the exceptions of the outside calls through:
  the step only added to the trace; when an outside call it made raised, the result is
  that exception, raised; and a log record at error level was written only if \<open>logged\<close>
  holds.
\<close>

definition propagated ::
  "env \<Rightarrow> bool \<Rightarrow> 'a traced_scheme \<Rightarrow> exn option \<times> 'a traced_scheme \<Rightarrow> bool" where
  "propagated env logged w r =
     (\<exists>evs. trace (snd r) = trace w @ evs
        \<and> (\<forall>c e. Call c \<in> set evs \<and> env c = Some e \<longrightarrow> fst r = Some e)
        \<and> (Log Error \<in> set evs \<longrightarrow> logged))"

definition propagates :: "env \<Rightarrow> bool \<Rightarrow> ('a traced_scheme) step \<Rightarrow> 'a traced_scheme \<Rightarrow> bool" where
  "propagates env logged s w = propagated env logged w (s w)"

section \<open>Example states\<close>

text \<open>
  A device, an entity state and an environment in which every outside call returns. The
  example of a setter refuses, for a range, a value that is not among the range's values,
  as a setter that keeps to the range's step does; otherwise it stores the value.
\<close>

definition example_device :: device where
  "example_device =
     \<lparr>appliance_type = ''AC'',
      available_settings = [''settings.ecoMode'', ''startProgram.prewash''],
      settings = [''settings.ecoMode'' \<mapsto> 0, ''startProgram.prewash'' \<mapsto> 1,
                  ''settings.muteStatus'' \<mapsto> 2, ''startProgram.delayStatus'' \<mapsto> 3],
      objs = (\<lambda>a. if a = 0 then HonParameterRange (PyInt 0) (PyInt 0) (PyInt 1) [PyInt 0, PyInt 1]
                  else if a = 1 then OtherParameter (PyStr ''0'') None
                  else HonParameter (PyInt 0)),
      items = [''ecoMode'' \<mapsto> PyInt 1, ''active'' \<mapsto> PyBool True],
      attributes = [''active'' \<mapsto> PyBool True],
      commands = [''settings'', ''startProgram'', ''stopProgram''],
      connection = True\<rparr>"

definition example_setter :: "addr \<Rightarrow> pyval \<Rightarrow> device \<Rightarrow> exn + device" where
  "example_setter a v d =
     (case objs d a of
        HonParameter x \<Rightarrow> Inr (d\<lparr>objs := (objs d)(a := HonParameter v)\<rparr>)
      | HonParameterRange x mn mx vs \<Rightarrow>
          if v \<in> set vs then Inr (d\<lparr>objs := (objs d)(a := HonParameterRange v mn mx vs)\<rparr>)
          else Inl (Exn ValueError ''Allowed: min max step But was: value'')
      | OtherParameter x m \<Rightarrow> Inr (d\<lparr>objs := (objs d)(a := OtherParameter v m)\<rparr>))"

definition example_world :: world where
  "example_world =
     \<lparr>trace = [], global_SWITCHES = map_of SWITCHES_literal, dev = example_device,
      attr_is_on = None, value_setter = example_setter\<rparr>"

text \<open>A range from 0 to 5 in steps of 2: its maximum is not among its values.\<close>

definition stepped_world :: world where
  "stepped_world =
     example_world\<lparr>dev := example_device
       \<lparr>objs := (\<lambda>a. HonParameterRange (PyInt 0) (PyInt 0) (PyInt 5)
                              [PyInt 0, PyInt 2, PyInt 4])\<rparr>\<rparr>"

definition all_return :: env where
  "all_return c = None"

text \<open>The state before the module is loaded.\<close>

definition before_load :: traced where
  "before_load = \<lparr>trace = [], global_SWITCHES = Map.empty\<rparr>"

definition disconnected_device :: device where
  "disconnected_device =
     example_device\<lparr>items := [''attributes.lastConnEvent.category'' \<mapsto> PyStr ''DISCONNECTED'']\<rparr>"

definition send_raises :: env where
  "send_raises c = (case c of Send k \<Rightarrow> Some (Exn RuntimeError ''send failed'') | _ \<Rightarrow> None)"

definition example_hass :: hass where
  "example_hass =
     \<lparr>trace = [],
      global_SWITCHES = map_of SWITCHES_literal,
      config_dir = Some ''/config'',
      entry_data = [''email'' \<mapsto> PyStr ''user@example.org'', ''password'' \<mapsto> PyStr ''secret''],
      entry_unique_id = Some ''user@example.org'',
      hass_data = Map.empty,
      coordinators = [],
      subscribers = [],
      loop_queue = [],
      added_entities = []\<rparr>"

definition example_constants :: constants where
  "example_constants =
     \<lparr>DOMAIN = ''hon'', PLATFORMS = [''switch''], MOBILE_ID = ''homassistant'',
      CONF_REFRESH_TOKEN = ''refresh_token'', CONF_EMAIL = ''email'',
      CONF_PASSWORD = ''password''\<rparr>"

definition example_Hon :: Hon where
  "example_Hon = \<lparr>refresh_token = ''token'', appliances = [example_device]\<rparr>"

text \<open>Environments in which exactly one outside call raises.\<close>

definition only_raises :: "ext_call \<Rightarrow> exn \<Rightarrow> env" where
  "only_raises c e c' = (if c' = c then Some e else None)"

definition example_error :: exn where
  "example_error = Exn RuntimeError ''Event loop is closed''"

definition already_setup :: exn where
  "already_setup = Exn ValueError ''Config entry has already been setup!''"

definition refusing_world :: world where
  "refusing_world =
     example_world\<lparr>value_setter := (\<lambda>a v d. Inl (Exn ValueError ''refused''))\<rparr>"

definition disconnected_world :: world where
  "disconnected_world = example_world\<lparr>dev := disconnected_device\<rparr>"

section \<open>Helper facts about running steps\<close>

lemma run_single: "run [s] w = s w"
  by (simp split: prod.splits option.splits)

lemma run_log: "run (log l # ss) w = run ss (w\<lparr>trace := trace w @ [Log l]\<rparr>)"
  by (simp add: log_def)

lemma run_call_returns:
  "env c = None \<Longrightarrow> run (call env c # ss) w = run ss (w\<lparr>trace := trace w @ [Call c]\<rparr>)"
  by (simp add: call_def)

lemma run_call_raises:
  "env c = Some e \<Longrightarrow> run (call env c # ss) w = (Some e, w\<lparr>trace := trace w @ [Call c]\<rparr>)"
  by (simp add: call_def)

lemma dev_log: "dev (snd (log l w)) = dev w"
  by (simp add: log_def)

lemma dev_call: "dev (snd (call env c w)) = dev w"
  by (simp add: call_def)

lemma dev_send_command: "dev (snd (send_command env k w)) = dev w"
  by (simp add: send_command_def raise_def dev_call)

lemma dev_run:
  assumes "\<And>s w. s \<in> set ss \<Longrightarrow> dev (snd (s w)) = dev w"
  shows "dev (snd (run ss w)) = dev w"
  using assms
proof (induction ss arbitrary: w)
  case Nil
  then show ?case by simp
next
  case (Cons s ss)
  obtain r w' where sw: "s w = (r, w')" by (cases "s w")
  have "dev (snd (s w)) = dev w" using Cons.prems by simp
  with sw have w': "dev w' = dev w" by simp
  show ?case
  proof (cases r)
    case None
    have "dev (snd (run ss w')) = dev w'"
      using Cons.IH Cons.prems by simp
    with None sw w' show ?thesis by simp
  next
    case (Some e)
    with sw w' show ?thesis by simp
  qed
qed

lemma dev_try_except:
  assumes "\<And>w. dev (snd (body w)) = dev w" and "\<And>e w. dev (snd (handler e w)) = dev w"
  shows "dev (snd (try_except_Exception body handler w)) = dev w"
proof -
  obtain r w' where bw: "body w = (r, w')" by (cases "body w")
  have "dev (snd (body w)) = dev w" by (rule assms(1))
  with bw have w': "dev w' = dev w" by simp
  show ?thesis
  proof (cases r)
    case None
    with bw w' show ?thesis by (simp add: try_except_Exception_def)
  next
    case (Some e)
    have "dev (snd (handler e w')) = dev w'" by (rule assms(2))
    with Some bw w' show ?thesis by (simp add: try_except_Exception_def)
  qed
qed

lemma dev_coordinator:
  "dev (snd (HonDataUpdateCoordinator_async_set_updated_data env w)) = dev (w::world)"
  unfolding HonDataUpdateCoordinator_async_set_updated_data_def
proof (rule dev_run)
  fix s :: "world step" and w
  assume "s \<in> set [log Debug, log Info,
           try_except_Exception (run [call env SuperAsyncSetUpdatedData, log Debug])
             (\<lambda>e. run [log Error, raise e])]"
  then consider "s = log Debug" | "s = log Info"
    | "s = try_except_Exception (run [call env SuperAsyncSetUpdatedData, log Debug])
             (\<lambda>e. run [log Error, raise e])"
    by auto
  then show "dev (snd (s w)) = dev w"
  proof cases
    case 3
    have b: "dev (snd (run [call env SuperAsyncSetUpdatedData, log Debug] w)) = dev w" for w :: world
      by (rule dev_run) (auto simp: dev_call dev_log)
    have h: "dev (snd (run [log Error, raise e] w)) = dev w" for e and w :: world
      by (rule dev_run) (auto simp: dev_log raise_def)
    show ?thesis unfolding 3 using b h by (rule dev_try_except)
  qed (simp_all add: dev_log)
qed

lemmas dev_steps = dev_log dev_call dev_send_command dev_coordinator

section \<open>A setting of the base class is left alone\<close>

lemma HonSwitchEntity_async_turn_on_base:
  assumes "settings (dev w) (''settings.'' @ key desc) = Some a"
    and "type_is_HonParameter (objs (dev w) a)"
  shows "HonSwitchEntity_async_turn_on env desc w =
         (None, w\<lparr>trace := trace w @ [Log Debug, Log Warning]\<rparr>)"
  using assms unfolding HonSwitchEntity_async_turn_on_def
  by (simp add: run_log run_single getitem_def Let_def log_def del: run.simps)

lemma HonSwitchEntity_async_turn_off_base:
  assumes "settings (dev w) (''settings.'' @ key desc) = Some a"
    and "type_is_HonParameter (objs (dev w) a)"
  shows "HonSwitchEntity_async_turn_off env desc w =
         (None, w\<lparr>trace := trace w @ [Log Debug, Log Warning]\<rparr>)"
  using assms unfolding HonSwitchEntity_async_turn_off_def
  by (simp add: run_log run_single getitem_def Let_def log_def del: run.simps)

lemma HonConfigSwitchEntity_async_turn_on_base:
  assumes "settings (dev w) (key desc) = Some a"
    and "type_is_HonParameter (objs (dev w) a)"
  shows "HonConfigSwitchEntity_async_turn_on env desc w =
         (None, w\<lparr>trace := trace w @ [Log Debug, Log Warning]\<rparr>)"
  using assms unfolding HonConfigSwitchEntity_async_turn_on_def
  by (simp add: run_log run_single getitem_def Let_def log_def del: run.simps)

lemma HonConfigSwitchEntity_async_turn_off_base:
  assumes "settings (dev w) (key desc) = Some a"
    and "type_is_HonParameter (objs (dev w) a)"
  shows "HonConfigSwitchEntity_async_turn_off env desc w =
         (None, w\<lparr>trace := trace w @ [Log Debug, Log Warning]\<rparr>)"
  using assms unfolding HonConfigSwitchEntity_async_turn_off_def
  by (simp add: run_log run_single getitem_def Let_def log_def del: run.simps)

text \<open>
  C8. For a \<open>HonSwitchEntity\<close> and a \<open>HonConfigSwitchEntity\<close> whose setting is exactly a
  \<open>HonParameter\<close>, \<open>async_turn_on\<close> and \<open>async_turn_off\<close> return at once: they return
  normally, and the state afterwards is the state before with two log records added (one
  at debug level, one warning). No value is assigned, nothing of the device changes, and
  no outside call is made, so no command is sent.
\<close>

theorem turn_on_off_base_parameter_returns_early:
  "(settings (dev w) (''settings.'' @ key desc) = Some a
      \<and> type_is_HonParameter (objs (dev w) a) \<longrightarrow>
      HonSwitchEntity_async_turn_on env desc w =
        (None, w\<lparr>trace := trace w @ [Log Debug, Log Warning]\<rparr>)
      \<and> HonSwitchEntity_async_turn_off env desc w =
        (None, w\<lparr>trace := trace w @ [Log Debug, Log Warning]\<rparr>))
   \<and> (settings (dev w) (key cdesc) = Some b
      \<and> type_is_HonParameter (objs (dev w) b) \<longrightarrow>
      HonConfigSwitchEntity_async_turn_on env cdesc w =
        (None, w\<lparr>trace := trace w @ [Log Debug, Log Warning]\<rparr>)
      \<and> HonConfigSwitchEntity_async_turn_off env cdesc w =
        (None, w\<lparr>trace := trace w @ [Log Debug, Log Warning]\<rparr>))"
  using HonSwitchEntity_async_turn_on_base [of w desc a env]
    HonSwitchEntity_async_turn_off_base [of w desc a env]
    HonConfigSwitchEntity_async_turn_on_base [of w cdesc b env]
    HonConfigSwitchEntity_async_turn_off_base [of w cdesc b env]
  by blast

theorem turn_on_off_base_parameter_returns_early_witness:
  "settings (dev example_world)
     (''settings.'' @ key (HonSwitchEntityDescription ''muteStatus'' ''Silent Mode''
        ''mdi:volume-off'' (Some ''silent_mode''))) = Some 2
   \<and> type_is_HonParameter (objs (dev example_world) 2)
   \<and> settings (dev example_world)
     (key (HonConfigSwitchEntityDescription ''startProgram.delayStatus'' ''Delay Status''
        ''mdi:timer-check'' (Some ''delay_time''))) = Some 3
   \<and> type_is_HonParameter (objs (dev example_world) 3)
   \<and> HonSwitchEntity_async_turn_on all_return
        (HonSwitchEntityDescription ''muteStatus'' ''Silent Mode'' ''mdi:volume-off''
           (Some ''silent_mode''))
        example_world
       = (None, example_world\<lparr>trace := [Log Debug, Log Warning]\<rparr>)
   \<and> HonConfigSwitchEntity_async_turn_off all_return
        (HonConfigSwitchEntityDescription ''startProgram.delayStatus'' ''Delay Status''
           ''mdi:timer-check'' (Some ''delay_time''))
        example_world
       = (None, example_world\<lparr>trace := [Log Debug, Log Warning]\<rparr>)"
  using turn_on_off_base_parameter_returns_early [of example_world
      "HonSwitchEntityDescription ''muteStatus'' ''Silent Mode'' ''mdi:volume-off''
         (Some ''silent_mode'')" 2
      all_return
      "HonConfigSwitchEntityDescription ''startProgram.delayStatus'' ''Delay Status''
         ''mdi:timer-check'' (Some ''delay_time'')" 3]
  by (simp add: example_world_def example_device_def)

section \<open>The \<open>is_on\<close> properties\<close>

text \<open>
  C5. Each \<open>is_on\<close> reads the device and changes nothing but the trace, to which it adds
  one debug record. \<open>HonSwitchEntity.is_on\<close> is true exactly when the device has a value
  for the key and that value equals \<open>1\<close> (Python's \<open>==\<close>); without a value it is false.
  \<open>HonControlSwitchEntity.is_on\<close> returns the device's value for the key, and \<open>False\<close>
  without one. \<open>HonConfigSwitchEntity.is_on\<close>, for a setting that exists, is true exactly
  when the value differs from \<open>min\<close> if the setting has a \<open>min\<close>, and otherwise when the
  value equals the string \<open>"1"\<close>; whether or not the setting exists, it leaves the device
  and the entity's \<open>_attr_is_on\<close> as they were.
\<close>

theorem is_on_reads_device:
  "HonSwitchEntity_is_on desc w =
     (Inr (case items (dev w) (key desc) of None \<Rightarrow> False | Some v \<Rightarrow> py_eq v (PyInt 1)),
      w\<lparr>trace := trace w @ [Log Debug]\<rparr>)
   \<and> HonControlSwitchEntity_is_on desc w =
     (Inr (case items (dev w) (key desc) of None \<Rightarrow> PyBool False | Some v \<Rightarrow> v),
      w\<lparr>trace := trace w @ [Log Debug]\<rparr>)
   \<and> (settings (dev w) (key desc) = Some a \<longrightarrow>
        HonConfigSwitchEntity_is_on desc w =
          (Inr (case min_attr (objs (dev w) a) of
                  Some mn \<Rightarrow> \<not> py_eq (p_value (objs (dev w) a)) mn
                | None \<Rightarrow> py_eq (p_value (objs (dev w) a)) (PyStr ''1'')),
           w\<lparr>trace := trace w @ [Log Debug]\<rparr>))
   \<and> dev (snd (HonConfigSwitchEntity_is_on desc w)) = dev w
   \<and> attr_is_on (snd (HonConfigSwitchEntity_is_on desc w)) = attr_is_on w"
  by (simp add: HonSwitchEntity_is_on_def HonSwitchEntity_is_on_value_def
      HonControlSwitchEntity_is_on_def HonConfigSwitchEntity_is_on_def get_def getitem_def
      log_def Let_def split: option.splits)

theorem is_on_reads_device_witness:
  "settings (dev example_world)
     (key (HonConfigSwitchEntityDescription ''startProgram.prewash'' ''Prewash''
        ''mdi:tshirt-v'' (Some ''prewash''))) = Some 1
   \<and> fst (HonConfigSwitchEntity_is_on
        (HonConfigSwitchEntityDescription ''startProgram.prewash'' ''Prewash''
           ''mdi:tshirt-v'' (Some ''prewash'')) example_world) = Inr False
   \<and> fst (HonSwitchEntity_is_on
        (HonConfigSwitchEntityDescription ''startProgram.prewash'' ''Prewash''
           ''mdi:tshirt-v'' (Some ''prewash'')) example_world) = Inr False"
  using is_on_reads_device [of
      "HonConfigSwitchEntityDescription ''startProgram.prewash'' ''Prewash''
         ''mdi:tshirt-v'' (Some ''prewash'')" example_world 1]
  by (simp add: example_world_def example_device_def)

section \<open>Turning a control switch on and off\<close>

lemma run_append:
  "run (xs @ ys) w = (case run xs w of (Some e, w') \<Rightarrow> (Some e, w') | (None, w') \<Rightarrow> run ys w')"
  by (induction xs arbitrary: w) (auto split: prod.splits option.splits)

lemma coordinator_returns:
  assumes "env SuperAsyncSetUpdatedData = None"
  shows "HonDataUpdateCoordinator_async_set_updated_data env w =
         (None, w\<lparr>trace := trace w @ [Log Debug, Log Info, Call SuperAsyncSetUpdatedData,
                                       Log Debug]\<rparr>)"
  using assms
  by (simp add: HonDataUpdateCoordinator_async_set_updated_data_def try_except_Exception_def
      log_def call_def)

lemma run_coordinator_returns:
  assumes "env SuperAsyncSetUpdatedData = None"
  shows "run (HonDataUpdateCoordinator_async_set_updated_data env # ss) w =
         run ss (w\<lparr>trace := trace w @ [Log Debug, Log Info, Call SuperAsyncSetUpdatedData,
                                        Log Debug]\<rparr>)"
  using assms by (simp add: coordinator_returns)

lemma run_send_command_returns:
  assumes "k \<in> set (commands (dev w))" and "env (Send k) = None"
  shows "run (send_command env k # ss) w = run ss (w\<lparr>trace := trace w @ [Call (Send k)]\<rparr>)"
  using assms by (simp add: send_command_def call_def)

lemma run_assign_attribute:
  "run (assign_attribute k v # ss) w =
   run ss (w\<lparr>dev := (dev w)\<lparr>attributes := (attributes (dev w))(k \<mapsto> v)\<rparr>\<rparr>)"
  by (simp add: assign_attribute_def)

lemma control_returns:
  assumes "env (SyncCommand c ''settings'') = None" and "env SuperAsyncSetUpdatedData = None"
    and "c \<in> set (commands (dev w))" and "env (Send c) = None"
    and "env AsyncWriteHaState = None"
  shows "run [log Debug, call env (SyncCommand c ''settings''),
              HonDataUpdateCoordinator_async_set_updated_data env,
              send_command env c, assign_attribute k v, call env AsyncWriteHaState,
              log Debug] w =
         (None, w\<lparr>trace := trace w @
                   [Log Debug, Call (SyncCommand c ''settings''), Log Debug, Log Info,
                    Call SuperAsyncSetUpdatedData, Log Debug, Call (Send c),
                    Call AsyncWriteHaState, Log Debug],
                 dev := (dev w)\<lparr>attributes := (attributes (dev w))(k \<mapsto> v)\<rparr>\<rparr>)"
  using assms
  by (simp add: run_log run_call_returns run_coordinator_returns run_send_command_returns
      run_assign_attribute del: run.simps) simp

lemma control_send_raises:
  assumes "env (Send c) \<noteq> None"
  shows "dev (snd (run [log Debug, call env (SyncCommand c ''settings''),
              HonDataUpdateCoordinator_async_set_updated_data env,
              send_command env c, assign_attribute k v, call env AsyncWriteHaState,
              log Debug] w)) = dev w"
proof -
  let ?pre = "[log Debug, call env (SyncCommand c ''settings''),
               HonDataUpdateCoordinator_async_set_updated_data env]"
  let ?post = "[send_command env c, assign_attribute k v, call env AsyncWriteHaState, log Debug]"
  obtain r w' where pre: "run ?pre w = (r, w')" by (cases "run ?pre w")
  have "dev (snd (run ?pre w)) = dev w"
    by (rule dev_run) (auto simp: dev_steps)
  with pre have w': "dev w' = dev w" by simp
  obtain e where e: "env (Send c) = Some e" using assms by auto
  have "\<exists>e' w''. send_command env c w' = (Some e', w'') \<and> dev w'' = dev w'"
    using e by (simp add: send_command_def call_def raise_def)
  then have post: "dev (snd (run ?post w')) = dev w'" by auto
  have "run (?pre @ ?post) w = (case r of Some e \<Rightarrow> (Some e, w') | None \<Rightarrow> run ?post w')"
    unfolding run_append pre by simp
  then have "dev (snd (run (?pre @ ?post) w)) = dev w"
    using post w' by (cases r) simp_all
  then show ?thesis by simp
qed

text \<open>
  C4. For a \<open>HonControlSwitchEntity\<close> whose command exists, when the outside calls return:
  \<open>async_turn_on\<close> calls \<open>sync_command\<close> and updates the coordinator, then sends the
  command named by \<open>turn_on_key\<close>, then sets the device attribute named by \<open>key\<close> to
  \<open>True\<close>, and returns normally; the trace gives the order of the calls.
  \<open>async_turn_off\<close> does the same with \<open>turn_off_key\<close> and \<open>False\<close>. The attribute is
  written after the command is sent: when sending raises, the device is left as it was.
\<close>

theorem control_turn_on_off:
  "(env (SyncCommand on ''settings'') = None \<and> env SuperAsyncSetUpdatedData = None
      \<and> on \<in> set (commands (dev w)) \<and> env (Send on) = None
      \<and> env AsyncWriteHaState = None \<longrightarrow>
      HonControlSwitchEntity_async_turn_on env
          (HonControlSwitchEntityDescription k n i on off t) w =
        (None, w\<lparr>trace := trace w @
                  [Log Debug, Call (SyncCommand on ''settings''), Log Debug, Log Info,
                   Call SuperAsyncSetUpdatedData, Log Debug, Call (Send on),
                   Call AsyncWriteHaState, Log Debug],
                dev := (dev w)\<lparr>attributes := (attributes (dev w))(k \<mapsto> PyBool True)\<rparr>\<rparr>))
   \<and> (env (SyncCommand off ''settings'') = None \<and> env SuperAsyncSetUpdatedData = None
      \<and> off \<in> set (commands (dev w)) \<and> env (Send off) = None
      \<and> env AsyncWriteHaState = None \<longrightarrow>
      HonControlSwitchEntity_async_turn_off env
          (HonControlSwitchEntityDescription k n i on off t) w =
        (None, w\<lparr>trace := trace w @
                  [Log Debug, Call (SyncCommand off ''settings''), Log Debug, Log Info,
                   Call SuperAsyncSetUpdatedData, Log Debug, Call (Send off),
                   Call AsyncWriteHaState, Log Debug],
                dev := (dev w)\<lparr>attributes := (attributes (dev w))(k \<mapsto> PyBool False)\<rparr>\<rparr>))
   \<and> (env (Send on) \<noteq> None \<longrightarrow>
        dev (snd (HonControlSwitchEntity_async_turn_on env
          (HonControlSwitchEntityDescription k n i on off t) w)) = dev w)
   \<and> (env (Send off) \<noteq> None \<longrightarrow>
        dev (snd (HonControlSwitchEntity_async_turn_off env
          (HonControlSwitchEntityDescription k n i on off t) w)) = dev w)"
  unfolding HonControlSwitchEntity_async_turn_on_def HonControlSwitchEntity_async_turn_off_def
  using control_returns [of env on w k "PyBool True"]
    control_returns [of env off w k "PyBool False"]
    control_send_raises [of env on k "PyBool True" w]
    control_send_raises [of env off k "PyBool False" w]
  by simp

theorem control_turn_on_off_witness:
  "all_return (SyncCommand ''startProgram'' ''settings'') = None
   \<and> all_return SuperAsyncSetUpdatedData = None
   \<and> ''startProgram'' \<in> set (commands (dev example_world))
   \<and> all_return (Send ''startProgram'') = None
   \<and> all_return AsyncWriteHaState = None
   \<and> HonControlSwitchEntity_async_turn_on all_return
        (HonControlSwitchEntityDescription ''active'' ''Washing Machine'' ''mdi:washing-machine''
           ''startProgram'' ''stopProgram'' (Some ''washing_machine'')) example_world =
       (None, example_world\<lparr>trace :=
                  [Log Debug, Call (SyncCommand ''startProgram'' ''settings''), Log Debug,
                   Log Info, Call SuperAsyncSetUpdatedData, Log Debug,
                   Call (Send ''startProgram''), Call AsyncWriteHaState, Log Debug],
                dev := example_device\<lparr>attributes := [''active'' \<mapsto> PyBool True]\<rparr>\<rparr>)
   \<and> attributes (dev (snd (HonControlSwitchEntity_async_turn_off all_return
        (HonControlSwitchEntityDescription ''active'' ''Washing Machine'' ''mdi:washing-machine''
           ''startProgram'' ''stopProgram'' (Some ''washing_machine'')) example_world)))
         ''active'' = Some (PyBool False)
   \<and> send_raises (Send ''startProgram'') \<noteq> None
   \<and> dev (snd (HonControlSwitchEntity_async_turn_on send_raises
        (HonControlSwitchEntityDescription ''active'' ''Washing Machine'' ''mdi:washing-machine''
           ''startProgram'' ''stopProgram'' (Some ''washing_machine'')) example_world))
       = dev example_world"
  using control_turn_on_off [of all_return "''startProgram''" example_world
      "''active''" "''Washing Machine''" "''mdi:washing-machine''" "''stopProgram''"
      "Some ''washing_machine''"]
    control_turn_on_off [of send_raises "''startProgram''" example_world
      "''active''" "''Washing Machine''" "''mdi:washing-machine''" "''stopProgram''"
      "Some ''washing_machine''"]
  by (simp add: all_return_def send_raises_def example_world_def example_device_def)

section \<open>The entities the platform setup creates\<close>

lemma make_entity_Some:
  assumes "make_entity device description = Some e"
  shows "entity_device e = device \<and> entity_description e = description
    \<and> (case e of
         HonConfigSwitchEntity d c \<Rightarrow>
           is_HonConfigSwitchEntityDescription c \<and> key c \<in> set (available_settings d)
       | HonControlSwitchEntity d c \<Rightarrow>
           is_HonControlSwitchEntityDescription c
           \<and> (get d (key c) PyNone \<noteq> PyNone
                \<or> turn_on_key c \<in> set (commands d)
                \<or> turn_off_key c \<in> set (commands d))
       | HonSwitchEntity d c \<Rightarrow>
           is_HonSwitchEntityDescription c
           \<and> ''settings.'' @ key c \<in> set (available_settings d))"
  using assms by (cases description) (auto simp: Let_def split: if_splits)

lemma set_map_filter_Some:
  "set (List.map_filter f xs) = {y. \<exists>x \<in> set xs. f x = Some y}"
  by (induction xs) (auto split: option.splits)

lemma set_switch_async_setup_entry:
  "set (switch_async_setup_entry SWITCHES devices) =
   {e. \<exists>device \<in> set devices. \<exists>ds description.
         SWITCHES (appliance_type device) = Some ds \<and> description \<in> set ds
         \<and> make_entity device description = Some e}"
  unfolding switch_async_setup_entry_def
  by (auto simp: set_map_filter_Some split: option.splits) metis+

lemma example_setup:
  "switch_async_setup_entry (map_of SWITCHES_literal) [example_device] =
   [HonSwitchEntity example_device
      (HonSwitchEntityDescription ''ecoMode'' ''Eco Mode'' ''mdi:sprout'' (Some ''eco_mode''))]"
proof -
  have t: "appliance_type example_device = ''AC''"
    and a: "available_settings example_device = [''settings.ecoMode'', ''startProgram.prewash'']"
    by (simp_all add: example_device_def)
  show ?thesis
    unfolding switch_async_setup_entry_def
    by (simp add: t a SWITCHES_literal_def List.map_filter_simps)
qed


text \<open>
  C9. The platform's \<open>async_setup_entry\<close> creates an entity only for a description the
  device supports. A device whose \<open>appliance_type\<close> is not a key of \<open>SWITCHES\<close> yields no
  entity. Every entity created belongs to one of the client's devices and to a description
  listed in \<open>SWITCHES\<close> for that device's type; a \<open>HonConfigSwitchEntity\<close> has a
  \<open>HonConfigSwitchEntityDescription\<close> whose key is in the device's \<open>available_settings\<close>; a
  \<open>HonSwitchEntity\<close> has a \<open>HonSwitchEntityDescription\<close> with \<open>"settings." + key\<close> in
  \<open>available_settings\<close>; a \<open>HonControlSwitchEntity\<close> has a
  \<open>HonControlSwitchEntityDescription\<close>, and the device has a value other than \<open>None\<close> for
  the key or lists \<open>turn_on_key\<close> or \<open>turn_off_key\<close> among its commands.
\<close>

theorem setup_creates_supported_entities:
  "(SWITCHES (appliance_type device) = None \<longrightarrow>
      switch_async_setup_entry SWITCHES [device] = [])
   \<and> (e \<in> set (switch_async_setup_entry SWITCHES devices) \<longrightarrow>
     entity_device e \<in> set devices
     \<and> (\<exists>ds. SWITCHES (appliance_type (entity_device e)) = Some ds
              \<and> entity_description e \<in> set ds)
     \<and> (case e of
          HonConfigSwitchEntity d c \<Rightarrow>
            is_HonConfigSwitchEntityDescription c \<and> key c \<in> set (available_settings d)
        | HonControlSwitchEntity d c \<Rightarrow>
            is_HonControlSwitchEntityDescription c
            \<and> (get d (key c) PyNone \<noteq> PyNone
                 \<or> turn_on_key c \<in> set (commands d)
                 \<or> turn_off_key c \<in> set (commands d))
        | HonSwitchEntity d c \<Rightarrow>
            is_HonSwitchEntityDescription c
            \<and> ''settings.'' @ key c \<in> set (available_settings d)))"
proof (intro conjI impI)
  assume "SWITCHES (appliance_type device) = None"
  then show "switch_async_setup_entry SWITCHES [device] = []"
    by (simp add: switch_async_setup_entry_def)
next
  assume "e \<in> set (switch_async_setup_entry SWITCHES devices)"
  then obtain device ds description where
    d: "device \<in> set devices" and
    ds: "SWITCHES (appliance_type device) = Some ds" "description \<in> set ds" and
    m: "make_entity device description = Some e"
    unfolding set_switch_async_setup_entry by blast
  from make_entity_Some [OF m] d ds have
    "entity_device e \<in> set devices
     \<and> (\<exists>ds. SWITCHES (appliance_type (entity_device e)) = Some ds
              \<and> entity_description e \<in> set ds)
     \<and> (case e of
          HonConfigSwitchEntity d c \<Rightarrow>
            is_HonConfigSwitchEntityDescription c \<and> key c \<in> set (available_settings d)
        | HonControlSwitchEntity d c \<Rightarrow>
            is_HonControlSwitchEntityDescription c
            \<and> (get d (key c) PyNone \<noteq> PyNone
                 \<or> turn_on_key c \<in> set (commands d)
                 \<or> turn_off_key c \<in> set (commands d))
        | HonSwitchEntity d c \<Rightarrow>
            is_HonSwitchEntityDescription c
            \<and> ''settings.'' @ key c \<in> set (available_settings d))"
    by auto
  then show "entity_device e \<in> set devices"
    and "\<exists>ds. SWITCHES (appliance_type (entity_device e)) = Some ds
              \<and> entity_description e \<in> set ds"
    and "case e of
          HonConfigSwitchEntity d c \<Rightarrow>
            is_HonConfigSwitchEntityDescription c \<and> key c \<in> set (available_settings d)
        | HonControlSwitchEntity d c \<Rightarrow>
            is_HonControlSwitchEntityDescription c
            \<and> (get d (key c) PyNone \<noteq> PyNone
                 \<or> turn_on_key c \<in> set (commands d)
                 \<or> turn_off_key c \<in> set (commands d))
        | HonSwitchEntity d c \<Rightarrow>
            is_HonSwitchEntityDescription c
            \<and> ''settings.'' @ key c \<in> set (available_settings d)"
    by blast+
qed

theorem setup_creates_supported_entities_witness:
  "map_of SWITCHES_literal (appliance_type (example_device\<lparr>appliance_type := ''XX''\<rparr>)) = None
   \<and> switch_async_setup_entry (map_of SWITCHES_literal)
         [example_device\<lparr>appliance_type := ''XX''\<rparr>] = []
   \<and> HonSwitchEntity example_device
        (HonSwitchEntityDescription ''ecoMode'' ''Eco Mode'' ''mdi:sprout'' (Some ''eco_mode''))
       \<in> set (switch_async_setup_entry (map_of SWITCHES_literal) [example_device])
   \<and> ''settings.ecoMode'' \<in> set (available_settings example_device)"
proof -
  have unknown: "map_of SWITCHES_literal
      (appliance_type (example_device\<lparr>appliance_type := ''XX''\<rparr>)) = None"
    by (simp add: SWITCHES_literal_def)
  have created: "HonSwitchEntity example_device
        (HonSwitchEntityDescription ''ecoMode'' ''Eco Mode'' ''mdi:sprout'' (Some ''eco_mode''))
       \<in> set (switch_async_setup_entry (map_of SWITCHES_literal) [example_device])"
    by (simp add: example_setup)
  note inst = setup_creates_supported_entities [of "map_of SWITCHES_literal"
      "example_device\<lparr>appliance_type := ''XX''\<rparr>"
      "HonSwitchEntity example_device
        (HonSwitchEntityDescription ''ecoMode'' ''Eco Mode'' ''mdi:sprout'' (Some ''eco_mode''))"
      "[example_device]"]
  from inst unknown have none: "switch_async_setup_entry (map_of SWITCHES_literal)
         [example_device\<lparr>appliance_type := ''XX''\<rparr>] = []"
    by blast
  from inst created have "''settings.ecoMode'' \<in> set (available_settings example_device)"
    by simp
  with unknown none created show ?thesis by blast
qed

section \<open>The update callback\<close>

lemma sublist_already_setup: "sublist ''has already been setup'' (exn_str already_setup)"
  unfolding sublist_def already_setup_def
  by (rule exI [of _ "''Config entry ''"], rule exI [of _ "''!''"]) simp

lemma make_threadsafe_callback_result:
  "make_threadsafe_callback env coordinator h =
     (case env CallSoonThreadsafe of
        None \<Rightarrow>
          (None, h\<lparr>trace := trace h @ [Log Debug, Call CallSoonThreadsafe, Log Debug],
                   loop_queue := loop_queue h @ [coordinator]\<rparr>)
      | Some e \<Rightarrow>
          if isinstance_Exception e
          then (None, h\<lparr>trace := trace h @ [Log Debug, Call CallSoonThreadsafe, Log Error]\<rparr>)
          else (Some e, h\<lparr>trace := trace h @ [Log Debug, Call CallSoonThreadsafe]\<rparr>))"
  by (simp add: make_threadsafe_callback_def call_soon_threadsafe_def try_except_Exception_def
      log_def call_def split: option.splits)

text \<open>
  C7. The callback subscribed to the client never calls the coordinator's
  \<open>async_set_updated_data\<close> itself. Whatever \<open>call_soon_threadsafe\<close> does, the records the
  callback adds to the trace are debug and error log records and the one call of
  \<open>call_soon_threadsafe\<close>; the coordinator's update, which would show as a call of the base
  class's method and an info record, is not among them. When \<open>call_soon_threadsafe\<close>
  returns, the update has been put on the event loop's queue, once; when it raises, nothing
  has been scheduled. On which thread the loop later runs the scheduled update is the
  host's contract for \<open>call_soon_threadsafe\<close>.
\<close>

theorem callback_only_schedules:
  "(\<exists>evs. trace (snd (make_threadsafe_callback env coordinator h)) = trace h @ evs
          \<and> set evs \<subseteq> {Log Debug, Log Error, Call CallSoonThreadsafe})
   \<and> loop_queue (snd (make_threadsafe_callback env coordinator h)) =
       (if env CallSoonThreadsafe = None then loop_queue h @ [coordinator] else loop_queue h)
   \<and> coordinators (snd (make_threadsafe_callback env coordinator h)) = coordinators h
   \<and> hass_data (snd (make_threadsafe_callback env coordinator h)) = hass_data h"
  unfolding make_threadsafe_callback_result
  by (auto split: option.splits)

theorem callback_only_schedules_witness:
  "all_return CallSoonThreadsafe = None
   \<and> loop_queue (snd (make_threadsafe_callback all_return 0 example_hass)) = [0]
   \<and> coordinators (snd (make_threadsafe_callback all_return 0 example_hass)) = []"
  using callback_only_schedules [of all_return 0 example_hass]
  by (simp add: all_return_def example_hass_def)

section \<open>The integration's setup\<close>

lemma forward_result:
  "async_forward_entry_setups_with_error_handling env h =
     (case env AsyncForwardEntrySetups of
        None \<Rightarrow> (None, h\<lparr>trace := trace h @ [Log Debug, Call AsyncForwardEntrySetups, Log Debug]\<rparr>)
      | Some e \<Rightarrow>
          if isinstance_ValueError e \<and> sublist ''has already been setup'' (exn_str e)
          then (None, h\<lparr>trace := trace h @ [Log Debug, Call AsyncForwardEntrySetups, Log Debug]\<rparr>)
          else if isinstance_Exception e
          then (Some e, h\<lparr>trace := trace h @ [Log Debug, Call AsyncForwardEntrySetups, Log Error]\<rparr>)
          else (Some e, h\<lparr>trace := trace h @ [Log Debug, Call AsyncForwardEntrySetups]\<rparr>))"
  by (auto simp add: async_forward_entry_setups_with_error_handling_def log_def call_def raise_def
      isinstance_ValueError_def isinstance_Exception_def split: option.splits)

lemma coordinator_raises:
  assumes "env SuperAsyncSetUpdatedData = Some e" and "isinstance_Exception e"
  shows "HonDataUpdateCoordinator_async_set_updated_data env w =
         (Some e, w\<lparr>trace := trace w @ [Log Debug, Log Info, Call SuperAsyncSetUpdatedData,
                                       Log Error]\<rparr>)"
  using assms
  by (simp add: HonDataUpdateCoordinator_async_set_updated_data_def try_except_Exception_def
      log_def call_def raise_def)

lemma switch_update_write_raises:
  assumes "env AsyncWriteHaState = Some e" and "isinstance_Exception e"
  shows "HonSwitchEntity_handle_coordinator_update env desc True w =
         (None, w\<lparr>trace := trace w @ [Log Debug, Log Debug, Log Debug, Log Debug,
                                       Call AsyncWriteHaState, Log Error],
                  attr_is_on := Some (HonSwitchEntity_is_on_value (dev w) desc)\<rparr>)"
  using assms
  by (simp add: HonSwitchEntity_handle_coordinator_update_def try_except_Exception_def
      store_is_on_def HonSwitchEntity_is_on_def log_def call_def Let_def)

lemma config_update_missing_setting:
  assumes "settings (dev w) (key desc) = None"
  shows "HonConfigSwitchEntity_handle_coordinator_update env desc update w =
         (None, w\<lparr>trace := trace w @ [Log Debug, Log Error]\<rparr>)"
  using assms
  by (simp add: HonConfigSwitchEntity_handle_coordinator_update_def try_except_Exception_def
      store_is_on_def HonConfigSwitchEntity_is_on_def getitem_def log_def
      isinstance_Exception_def)


lemma run_map_log:
  "run (map (\<lambda>x. log l) xs) (h :: 'a traced_scheme) =
   (None, h\<lparr>trace := trace h @ replicate (length xs) (Log l)\<rparr>)"
proof (induction xs arbitrary: h)
  case Nil
  then show ?case by simp
next
  case (Cons x xs)
  then show ?case by (simp add: log_def replicate_append_same [symmetric] del: replicate_append_same)
qed

lemma run_Cons_None_iff:
  "run (s # ss) w = (None, w'') \<longleftrightarrow> (\<exists>w'. s w = (None, w') \<and> run ss w' = (None, w''))"
  by (auto split: prod.splits option.splits)

lemma setup_create_raises:
  assumes "config_dir h \<noteq> None" and "env AsyncGetClientsession = None"
    and "entry_data h (CONF_EMAIL cs) \<noteq> None" and "entry_data h (CONF_PASSWORD cs) \<noteq> None"
    and "env HonCreate = Some e"
  shows "async_setup_entry env cs created h =
         (Inl e, h\<lparr>trace := trace h @ [Log Info, Call AsyncGetClientsession, Call HonCreate]
                                   @ (if isinstance_Exception e then [Log Error] else [])\<rparr>)"
  using assms
  by (auto simp add: async_setup_entry_def try_except_Exception_def getitem_def
      log_def call_def raise_def)

lemmas setup_defs = async_setup_entry_def try_except_Exception_def getitem_def
  log_def call_def raise_def HonDataUpdateCoordinator_init_def forward_result Let_def
  run_map_log isinstance_Exception_def

lemma setup_succeeds:
  assumes "env AsyncGetClientsession = None" and "config_dir h \<noteq> None"
    and "entry_data h (CONF_EMAIL cs) \<noteq> None" and "entry_data h (CONF_PASSWORD cs) \<noteq> None"
    and "env HonCreate = None" and "env AsyncUpdateEntry = None" and "env SuperInit = None"
    and "env SubscribeUpdates = None"
    and "\<forall>e. env AsyncForwardEntrySetups = Some e \<longrightarrow>
           isinstance_ValueError e \<and> sublist ''has already been setup'' (exn_str e)"
  shows "async_setup_entry env cs created h =
   (Inr True,
    h\<lparr>trace := trace h @ [Log Info, Call AsyncGetClientsession, Call HonCreate, Log Info,
                           Call AsyncUpdateEntry, Call SuperInit, Log Info, Log Info]
                         @ replicate (length (appliances created)) (Log Debug)
                         @ [Call SubscribeUpdates, Log Info, Log Info, Log Debug,
                            Call AsyncForwardEntrySetups, Log Debug, Log Info],
      entry_data := (entry_data h)(CONF_REFRESH_TOKEN cs \<mapsto> PyStr (refresh_token created)),
      coordinators := coordinators h @ [DOMAIN cs],
      subscribers := subscribers h @ [length (coordinators h)],
      hass_data := (hass_data h)(DOMAIN cs \<mapsto>
         (case hass_data h (DOMAIN cs) of None \<Rightarrow> Map.empty | Some m \<Rightarrow> m)
           (entry_unique_id h \<mapsto>
              \<lparr>stored_hon = created, stored_coordinator = length (coordinators h)\<rparr>))\<rparr>)"
proof (cases "env AsyncForwardEntrySetups")
  case None
  with assms show ?thesis
    by (simp add: setup_defs split: option.splits)
next
  case (Some e)
  with assms have "isinstance_ValueError e" "sublist ''has already been setup'' (exn_str e)"
    by simp_all
  with Some assms(1-8) show ?thesis
    by (simp add: setup_defs split: option.splits)
qed


lemma setup_fails:
  assumes "\<not> (env AsyncGetClientsession = None \<and> config_dir h \<noteq> None
    \<and> entry_data h (CONF_EMAIL cs) \<noteq> None \<and> entry_data h (CONF_PASSWORD cs) \<noteq> None
    \<and> env HonCreate = None \<and> env AsyncUpdateEntry = None \<and> env SuperInit = None
    \<and> env SubscribeUpdates = None
    \<and> (\<forall>e. env AsyncForwardEntrySetups = Some e \<longrightarrow>
           isinstance_ValueError e \<and> sublist ''has already been setup'' (exn_str e)))"
  shows "\<exists>e. fst (async_setup_entry env cs created h) = Inl e"
proof (rule ccontr)
  assume n: "\<not> (\<exists>e. fst (async_setup_entry env cs created h) = Inl e)"
  have session: "env AsyncGetClientsession = None"
  proof (rule ccontr)
    assume "env AsyncGetClientsession \<noteq> None"
    then have "\<exists>e. fst (async_setup_entry env cs created h) = Inl e"
      by (auto simp add: setup_defs)
    with n show False by simp
  qed
  have dir: "config_dir h \<noteq> None"
  proof
    assume "config_dir h = None"
    with session have "\<exists>e. fst (async_setup_entry env cs created h) = Inl e"
      by (auto simp add: setup_defs)
    with n show False by simp
  qed
  have email: "entry_data h (CONF_EMAIL cs) \<noteq> None"
  proof
    assume "entry_data h (CONF_EMAIL cs) = None"
    with session dir have "\<exists>e. fst (async_setup_entry env cs created h) = Inl e"
      by (auto simp add: setup_defs)
    with n show False by simp
  qed
  have password: "entry_data h (CONF_PASSWORD cs) \<noteq> None"
  proof
    assume "entry_data h (CONF_PASSWORD cs) = None"
    with session dir email have "\<exists>e. fst (async_setup_entry env cs created h) = Inl e"
      by (auto simp add: setup_defs)
    with n show False by simp
  qed
  have create: "env HonCreate = None"
  proof (rule ccontr)
    assume "env HonCreate \<noteq> None"
    with session dir email password
    have "\<exists>e. fst (async_setup_entry env cs created h) = Inl e"
      by (auto simp add: setup_defs)
    with n show False by simp
  qed
  have update: "env AsyncUpdateEntry = None"
  proof (rule ccontr)
    assume "env AsyncUpdateEntry \<noteq> None"
    with session dir email password create
    have "\<exists>e. fst (async_setup_entry env cs created h) = Inl e"
      by (auto simp add: setup_defs)
    with n show False by simp
  qed
  have init: "env SuperInit = None"
  proof (rule ccontr)
    assume "env SuperInit \<noteq> None"
    with session dir email password create update
    have "\<exists>e. fst (async_setup_entry env cs created h) = Inl e"
      by (auto simp add: setup_defs)
    with n show False by simp
  qed
  have subscribe: "env SubscribeUpdates = None"
  proof (rule ccontr)
    assume "env SubscribeUpdates \<noteq> None"
    with session dir email password create update init
    have "\<exists>e. fst (async_setup_entry env cs created h) = Inl e"
      by (auto simp add: setup_defs)
    with n show False by simp
  qed
  have forward: "isinstance_ValueError e \<and> sublist ''has already been setup'' (exn_str e)"
    if "env AsyncForwardEntrySetups = Some e" for e
  proof (rule ccontr)
    assume "\<not> (isinstance_ValueError e \<and> sublist ''has already been setup'' (exn_str e))"
    with that session dir email password create update init subscribe
    have "\<exists>e. fst (async_setup_entry env cs created h) = Inl e"
      by (auto simp add: setup_defs)
    with n show False by simp
  qed
  from assms session dir email password create update init subscribe forward
  show False by blast
qed


text \<open>
  C6. When \<open>async_setup_entry\<close> returns, it returns \<open>True\<close>, and the state it leaves is
  the state before with: the client created once; the client's refresh token written into
  the entry's data under \<open>CONF_REFRESH_TOKEN\<close>; exactly one coordinator constructed, named
  \<open>DOMAIN\<close>; one callback subscribed to the client, closing over that coordinator; and the
  client and the coordinator stored under \<open>hass.data[DOMAIN][entry.unique_id]\<close>. When the
  creation of the client is reached and raises, \<open>async_setup_entry\<close> raises the same
  exception, and \<open>hass.data\<close>, the coordinators and the subscriptions are as before.
\<close>

theorem setup_entry_success_and_create_failure:
  "(fst (async_setup_entry env cs created h) = Inr b \<longrightarrow>
      b = True
      \<and> snd (async_setup_entry env cs created h) =
          h\<lparr>trace := trace h @ [Log Info, Call AsyncGetClientsession, Call HonCreate, Log Info,
                                 Call AsyncUpdateEntry, Call SuperInit, Log Info, Log Info]
                               @ replicate (length (appliances created)) (Log Debug)
                               @ [Call SubscribeUpdates, Log Info, Log Info, Log Debug,
                                  Call AsyncForwardEntrySetups, Log Debug, Log Info],
            entry_data := (entry_data h)(CONF_REFRESH_TOKEN cs \<mapsto>
                                          PyStr (refresh_token created)),
            coordinators := coordinators h @ [DOMAIN cs],
            subscribers := subscribers h @ [length (coordinators h)],
            hass_data := (hass_data h)(DOMAIN cs \<mapsto>
               (case hass_data h (DOMAIN cs) of None \<Rightarrow> Map.empty | Some m \<Rightarrow> m)
                 (entry_unique_id h \<mapsto>
                    \<lparr>stored_hon = created,
                     stored_coordinator = length (coordinators h)\<rparr>))\<rparr>)
   \<and> (config_dir h \<noteq> None \<and> env AsyncGetClientsession = None
      \<and> entry_data h (CONF_EMAIL cs) \<noteq> None \<and> entry_data h (CONF_PASSWORD cs) \<noteq> None
      \<and> env HonCreate = Some e \<longrightarrow>
      fst (async_setup_entry env cs created h) = Inl e
      \<and> hass_data (snd (async_setup_entry env cs created h)) = hass_data h
      \<and> coordinators (snd (async_setup_entry env cs created h)) = coordinators h
      \<and> subscribers (snd (async_setup_entry env cs created h)) = subscribers h)"
proof (intro conjI impI)
  assume ok: "fst (async_setup_entry env cs created h) = Inr b"
  have s: "env AsyncGetClientsession = None \<and> config_dir h \<noteq> None
    \<and> entry_data h (CONF_EMAIL cs) \<noteq> None \<and> entry_data h (CONF_PASSWORD cs) \<noteq> None
    \<and> env HonCreate = None \<and> env AsyncUpdateEntry = None \<and> env SuperInit = None
    \<and> env SubscribeUpdates = None
    \<and> (\<forall>e. env AsyncForwardEntrySetups = Some e \<longrightarrow>
           isinstance_ValueError e \<and> sublist ''has already been setup'' (exn_str e))"
  proof (rule ccontr)
    assume "\<not> ?thesis"
    then have "\<exists>e. fst (async_setup_entry env cs created h) = Inl e"
      by (rule setup_fails)
    with ok show False by auto
  qed
  then have r: "async_setup_entry env cs created h =
   (Inr True,
    h\<lparr>trace := trace h @ [Log Info, Call AsyncGetClientsession, Call HonCreate, Log Info,
                           Call AsyncUpdateEntry, Call SuperInit, Log Info, Log Info]
                         @ replicate (length (appliances created)) (Log Debug)
                         @ [Call SubscribeUpdates, Log Info, Log Info, Log Debug,
                            Call AsyncForwardEntrySetups, Log Debug, Log Info],
      entry_data := (entry_data h)(CONF_REFRESH_TOKEN cs \<mapsto> PyStr (refresh_token created)),
      coordinators := coordinators h @ [DOMAIN cs],
      subscribers := subscribers h @ [length (coordinators h)],
      hass_data := (hass_data h)(DOMAIN cs \<mapsto>
         (case hass_data h (DOMAIN cs) of None \<Rightarrow> Map.empty | Some m \<Rightarrow> m)
           (entry_unique_id h \<mapsto>
              \<lparr>stored_hon = created, stored_coordinator = length (coordinators h)\<rparr>))\<rparr>)"
    by (intro setup_succeeds) simp_all
  from r ok show "b = True" by simp
  from r show "snd (async_setup_entry env cs created h) =
          h\<lparr>trace := trace h @ [Log Info, Call AsyncGetClientsession, Call HonCreate, Log Info,
                                 Call AsyncUpdateEntry, Call SuperInit, Log Info, Log Info]
                               @ replicate (length (appliances created)) (Log Debug)
                               @ [Call SubscribeUpdates, Log Info, Log Info, Log Debug,
                                  Call AsyncForwardEntrySetups, Log Debug, Log Info],
            entry_data := (entry_data h)(CONF_REFRESH_TOKEN cs \<mapsto>
                                          PyStr (refresh_token created)),
            coordinators := coordinators h @ [DOMAIN cs],
            subscribers := subscribers h @ [length (coordinators h)],
            hass_data := (hass_data h)(DOMAIN cs \<mapsto>
               (case hass_data h (DOMAIN cs) of None \<Rightarrow> Map.empty | Some m \<Rightarrow> m)
                 (entry_unique_id h \<mapsto>
                    \<lparr>stored_hon = created,
                     stored_coordinator = length (coordinators h)\<rparr>))\<rparr>"
    by simp
next
  assume f: "config_dir h \<noteq> None \<and> env AsyncGetClientsession = None
      \<and> entry_data h (CONF_EMAIL cs) \<noteq> None \<and> entry_data h (CONF_PASSWORD cs) \<noteq> None
      \<and> env HonCreate = Some e"
  then have r: "async_setup_entry env cs created h =
         (Inl e, h\<lparr>trace := trace h @ [Log Info, Call AsyncGetClientsession, Call HonCreate]
                                   @ (if isinstance_Exception e then [Log Error] else [])\<rparr>)"
    by (intro setup_create_raises) simp_all
  from r show "fst (async_setup_entry env cs created h) = Inl e" by simp
  from r show "hass_data (snd (async_setup_entry env cs created h)) = hass_data h" by simp
  from r show "coordinators (snd (async_setup_entry env cs created h)) = coordinators h" by simp
  from r show "subscribers (snd (async_setup_entry env cs created h)) = subscribers h" by simp
qed


theorem setup_entry_success_and_create_failure_witness:
  "fst (async_setup_entry all_return example_constants example_Hon example_hass) = Inr True
   \<and> hass_data (snd (async_setup_entry all_return example_constants example_Hon example_hass))
        ''hon'' =
       Some [Some ''user@example.org'' \<mapsto> \<lparr>stored_hon = example_Hon, stored_coordinator = 0\<rparr>]
   \<and> coordinators (snd (async_setup_entry all_return example_constants example_Hon example_hass))
       = [''hon'']
   \<and> entry_data (snd (async_setup_entry all_return example_constants example_Hon example_hass))
        ''refresh_token'' = Some (PyStr ''token'')
   \<and> config_dir example_hass \<noteq> None
   \<and> only_raises HonCreate (Exn RuntimeError ''login failed'') AsyncGetClientsession = None
   \<and> entry_data example_hass (CONF_EMAIL example_constants) \<noteq> None
   \<and> entry_data example_hass (CONF_PASSWORD example_constants) \<noteq> None
   \<and> only_raises HonCreate (Exn RuntimeError ''login failed'') HonCreate
       = Some (Exn RuntimeError ''login failed'')
   \<and> fst (async_setup_entry (only_raises HonCreate (Exn RuntimeError ''login failed''))
             example_constants example_Hon example_hass) = Inl (Exn RuntimeError ''login failed'')
   \<and> coordinators (snd (async_setup_entry
             (only_raises HonCreate (Exn RuntimeError ''login failed''))
             example_constants example_Hon example_hass)) = []"
proof -
  have ok: "fst (async_setup_entry all_return example_constants example_Hon example_hass)
      = Inr True"
    by (simp add: setup_defs all_return_def example_hass_def example_constants_def
        example_Hon_def)
  have pre: "config_dir example_hass \<noteq> None"
    "only_raises HonCreate (Exn RuntimeError ''login failed'') AsyncGetClientsession = None"
    "entry_data example_hass (CONF_EMAIL example_constants) \<noteq> None"
    "entry_data example_hass (CONF_PASSWORD example_constants) \<noteq> None"
    "only_raises HonCreate (Exn RuntimeError ''login failed'') HonCreate
       = Some (Exn RuntimeError ''login failed'')"
    by (simp_all add: only_raises_def example_hass_def example_constants_def)
  from ok setup_entry_success_and_create_failure
    [of all_return example_constants example_Hon example_hass True]
  have "snd (async_setup_entry all_return example_constants example_Hon example_hass) =
          example_hass\<lparr>trace := trace example_hass @ [Log Info, Call AsyncGetClientsession,
                                 Call HonCreate, Log Info,
                                 Call AsyncUpdateEntry, Call SuperInit, Log Info, Log Info]
                               @ replicate (length (appliances example_Hon)) (Log Debug)
                               @ [Call SubscribeUpdates, Log Info, Log Info, Log Debug,
                                  Call AsyncForwardEntrySetups, Log Debug, Log Info],
            entry_data := (entry_data example_hass)(CONF_REFRESH_TOKEN example_constants \<mapsto>
                                          PyStr (refresh_token example_Hon)),
            coordinators := coordinators example_hass @ [DOMAIN example_constants],
            subscribers := subscribers example_hass @ [length (coordinators example_hass)],
            hass_data := (hass_data example_hass)(DOMAIN example_constants \<mapsto>
               (case hass_data example_hass (DOMAIN example_constants) of
                  None \<Rightarrow> Map.empty | Some m \<Rightarrow> m)
                 (entry_unique_id example_hass \<mapsto>
                    \<lparr>stored_hon = example_Hon,
                     stored_coordinator = length (coordinators example_hass)\<rparr>))\<rparr>"
    by blast
  then have good:
    "hass_data (snd (async_setup_entry all_return example_constants example_Hon example_hass))
        ''hon'' =
       Some [Some ''user@example.org'' \<mapsto> \<lparr>stored_hon = example_Hon, stored_coordinator = 0\<rparr>]"
    "coordinators (snd (async_setup_entry all_return example_constants example_Hon example_hass))
       = [''hon'']"
    "entry_data (snd (async_setup_entry all_return example_constants example_Hon example_hass))
        ''refresh_token'' = Some (PyStr ''token'')"
    by (simp_all add: example_hass_def example_constants_def example_Hon_def)
  from pre setup_entry_success_and_create_failure
    [of "only_raises HonCreate (Exn RuntimeError ''login failed'')" example_constants
        example_Hon example_hass _ "Exn RuntimeError ''login failed''"]
  have "fst (async_setup_entry (only_raises HonCreate (Exn RuntimeError ''login failed''))
             example_constants example_Hon example_hass) = Inl (Exn RuntimeError ''login failed'')"
    and "coordinators (snd (async_setup_entry
             (only_raises HonCreate (Exn RuntimeError ''login failed''))
             example_constants example_Hon example_hass)) = coordinators example_hass"
    by blast+
  then have bad:
    "fst (async_setup_entry (only_raises HonCreate (Exn RuntimeError ''login failed''))
             example_constants example_Hon example_hass) = Inl (Exn RuntimeError ''login failed'')"
    "coordinators (snd (async_setup_entry
             (only_raises HonCreate (Exn RuntimeError ''login failed''))
             example_constants example_Hon example_hass)) = []"
    by (simp_all add: example_hass_def)
  from ok good pre bad show ?thesis by blast
qed

section \<open>Turning a setting switch on and off\<close>

lemma run_assign_value_raises:
  "value_setter w a v (dev w) = Inl e \<Longrightarrow> run (assign_value a v # ss) w = (Some e, w)"
  by (simp add: assign_value_def)

lemma run_assign_value_returns:
  "value_setter w a v (dev w) = Inr d \<Longrightarrow>
   run (assign_value a v # ss) w = run ss (w\<lparr>dev := d\<rparr>)"
  by (simp add: assign_value_def)

lemma HonSwitchEntity_async_turn_on_steps:
  assumes "settings (dev w) (''settings.'' @ key desc) = Some a"
    and "\<not> type_is_HonParameter (objs (dev w) a)"
  shows "HonSwitchEntity_async_turn_on env desc w =
         run (assign_value a
                (if isinstance_HonParameterRange (objs (dev w) a)
                 then p_max (objs (dev w) a) else PyInt 1)
              # [call env AsyncWriteHaState, send_command env ''settings'',
              HonDataUpdateCoordinator_async_set_updated_data env, log Debug])
           (w\<lparr>trace := trace w @ [Log Debug]\<rparr>)"
  using assms unfolding HonSwitchEntity_async_turn_on_def
  by (simp add: run_log run_single getitem_def Let_def del: run.simps)

lemma HonSwitchEntity_async_turn_on_setter_raises:
  assumes "settings (dev w) (''settings.'' @ key desc) = Some a"
    and "\<not> type_is_HonParameter (objs (dev w) a)"
    and "value_setter w a
           (if isinstance_HonParameterRange (objs (dev w) a)
            then p_max (objs (dev w) a) else PyInt 1) (dev w) = Inl e"
  shows "HonSwitchEntity_async_turn_on env desc w = (Some e, w\<lparr>trace := trace w @ [Log Debug]\<rparr>)"
proof -
  let ?w = "w\<lparr>trace := trace w @ [Log Debug]\<rparr>"
  from assms(3) have "value_setter ?w a
           (if isinstance_HonParameterRange (objs (dev w) a)
            then p_max (objs (dev w) a) else PyInt 1) (dev ?w) = Inl e"
    by simp
  then show ?thesis
    unfolding HonSwitchEntity_async_turn_on_steps [OF assms(1,2)]
    by (rule run_assign_value_raises)
qed

lemma HonSwitchEntity_async_turn_on_setter_returns:
  assumes "settings (dev w) (''settings.'' @ key desc) = Some a"
    and "\<not> type_is_HonParameter (objs (dev w) a)"
    and "value_setter w a
           (if isinstance_HonParameterRange (objs (dev w) a)
            then p_max (objs (dev w) a) else PyInt 1) (dev w) = Inr d"
  shows "dev (snd (HonSwitchEntity_async_turn_on env desc w)) = d"
proof -
  let ?w = "w\<lparr>trace := trace w @ [Log Debug]\<rparr>"
  let ?ss = "[call env AsyncWriteHaState, send_command env ''settings'',
              HonDataUpdateCoordinator_async_set_updated_data env, log Debug]"
  from assms(3) have "value_setter ?w a
           (if isinstance_HonParameterRange (objs (dev w) a)
            then p_max (objs (dev w) a) else PyInt 1) (dev ?w) = Inr d"
    by simp
  then have "HonSwitchEntity_async_turn_on env desc w = run ?ss (?w\<lparr>dev := d\<rparr>)"
    unfolding HonSwitchEntity_async_turn_on_steps [OF assms(1,2)]
    by (rule run_assign_value_returns)
  moreover have "dev (snd (run ?ss (?w\<lparr>dev := d\<rparr>))) = dev (?w\<lparr>dev := d\<rparr>)"
    by (rule dev_run) (auto simp: dev_steps)
  ultimately show ?thesis by simp
qed

lemma HonSwitchEntity_async_turn_off_steps:
  assumes "settings (dev w) (''settings.'' @ key desc) = Some a"
    and "\<not> type_is_HonParameter (objs (dev w) a)"
  shows "HonSwitchEntity_async_turn_off env desc w =
         run (assign_value a
                (if isinstance_HonParameterRange (objs (dev w) a)
                 then p_min (objs (dev w) a) else PyInt 0)
              # [call env AsyncWriteHaState, send_command env ''settings'',
              HonDataUpdateCoordinator_async_set_updated_data env, log Debug])
           (w\<lparr>trace := trace w @ [Log Debug]\<rparr>)"
  using assms unfolding HonSwitchEntity_async_turn_off_def
  by (simp add: run_log run_single getitem_def Let_def del: run.simps)

lemma HonSwitchEntity_async_turn_off_setter_raises:
  assumes "settings (dev w) (''settings.'' @ key desc) = Some a"
    and "\<not> type_is_HonParameter (objs (dev w) a)"
    and "value_setter w a
           (if isinstance_HonParameterRange (objs (dev w) a)
            then p_min (objs (dev w) a) else PyInt 0) (dev w) = Inl e"
  shows "HonSwitchEntity_async_turn_off env desc w = (Some e, w\<lparr>trace := trace w @ [Log Debug]\<rparr>)"
proof -
  let ?w = "w\<lparr>trace := trace w @ [Log Debug]\<rparr>"
  from assms(3) have "value_setter ?w a
           (if isinstance_HonParameterRange (objs (dev w) a)
            then p_min (objs (dev w) a) else PyInt 0) (dev ?w) = Inl e"
    by simp
  then show ?thesis
    unfolding HonSwitchEntity_async_turn_off_steps [OF assms(1,2)]
    by (rule run_assign_value_raises)
qed

lemma HonSwitchEntity_async_turn_off_setter_returns:
  assumes "settings (dev w) (''settings.'' @ key desc) = Some a"
    and "\<not> type_is_HonParameter (objs (dev w) a)"
    and "value_setter w a
           (if isinstance_HonParameterRange (objs (dev w) a)
            then p_min (objs (dev w) a) else PyInt 0) (dev w) = Inr d"
  shows "dev (snd (HonSwitchEntity_async_turn_off env desc w)) = d"
proof -
  let ?w = "w\<lparr>trace := trace w @ [Log Debug]\<rparr>"
  let ?ss = "[call env AsyncWriteHaState, send_command env ''settings'',
              HonDataUpdateCoordinator_async_set_updated_data env, log Debug]"
  from assms(3) have "value_setter ?w a
           (if isinstance_HonParameterRange (objs (dev w) a)
            then p_min (objs (dev w) a) else PyInt 0) (dev ?w) = Inr d"
    by simp
  then have "HonSwitchEntity_async_turn_off env desc w = run ?ss (?w\<lparr>dev := d\<rparr>)"
    unfolding HonSwitchEntity_async_turn_off_steps [OF assms(1,2)]
    by (rule run_assign_value_returns)
  moreover have "dev (snd (run ?ss (?w\<lparr>dev := d\<rparr>))) = dev (?w\<lparr>dev := d\<rparr>)"
    by (rule dev_run) (auto simp: dev_steps)
  ultimately show ?thesis by simp
qed

lemma HonConfigSwitchEntity_async_turn_on_steps:
  assumes "settings (dev w) (key desc) = Some a"
    and "\<not> type_is_HonParameter (objs (dev w) a)"
  shows "HonConfigSwitchEntity_async_turn_on env desc w =
         run (assign_value a
                (if isinstance_HonParameterRange (objs (dev w) a)
                 then p_max (objs (dev w) a) else PyStr ''1'')
              # [HonDataUpdateCoordinator_async_set_updated_data env,
              call env AsyncWriteHaState, log Debug])
           (w\<lparr>trace := trace w @ [Log Debug]\<rparr>)"
  using assms unfolding HonConfigSwitchEntity_async_turn_on_def
  by (simp add: run_log run_single getitem_def Let_def del: run.simps)

lemma HonConfigSwitchEntity_async_turn_on_setter_raises:
  assumes "settings (dev w) (key desc) = Some a"
    and "\<not> type_is_HonParameter (objs (dev w) a)"
    and "value_setter w a
           (if isinstance_HonParameterRange (objs (dev w) a)
            then p_max (objs (dev w) a) else PyStr ''1'') (dev w) = Inl e"
  shows "HonConfigSwitchEntity_async_turn_on env desc w = (Some e, w\<lparr>trace := trace w @ [Log Debug]\<rparr>)"
proof -
  let ?w = "w\<lparr>trace := trace w @ [Log Debug]\<rparr>"
  from assms(3) have "value_setter ?w a
           (if isinstance_HonParameterRange (objs (dev w) a)
            then p_max (objs (dev w) a) else PyStr ''1'') (dev ?w) = Inl e"
    by simp
  then show ?thesis
    unfolding HonConfigSwitchEntity_async_turn_on_steps [OF assms(1,2)]
    by (rule run_assign_value_raises)
qed

lemma HonConfigSwitchEntity_async_turn_on_setter_returns:
  assumes "settings (dev w) (key desc) = Some a"
    and "\<not> type_is_HonParameter (objs (dev w) a)"
    and "value_setter w a
           (if isinstance_HonParameterRange (objs (dev w) a)
            then p_max (objs (dev w) a) else PyStr ''1'') (dev w) = Inr d"
  shows "dev (snd (HonConfigSwitchEntity_async_turn_on env desc w)) = d"
proof -
  let ?w = "w\<lparr>trace := trace w @ [Log Debug]\<rparr>"
  let ?ss = "[HonDataUpdateCoordinator_async_set_updated_data env,
              call env AsyncWriteHaState, log Debug]"
  from assms(3) have "value_setter ?w a
           (if isinstance_HonParameterRange (objs (dev w) a)
            then p_max (objs (dev w) a) else PyStr ''1'') (dev ?w) = Inr d"
    by simp
  then have "HonConfigSwitchEntity_async_turn_on env desc w = run ?ss (?w\<lparr>dev := d\<rparr>)"
    unfolding HonConfigSwitchEntity_async_turn_on_steps [OF assms(1,2)]
    by (rule run_assign_value_returns)
  moreover have "dev (snd (run ?ss (?w\<lparr>dev := d\<rparr>))) = dev (?w\<lparr>dev := d\<rparr>)"
    by (rule dev_run) (auto simp: dev_steps)
  ultimately show ?thesis by simp
qed

lemma HonConfigSwitchEntity_async_turn_off_steps:
  assumes "settings (dev w) (key desc) = Some a"
    and "\<not> type_is_HonParameter (objs (dev w) a)"
  shows "HonConfigSwitchEntity_async_turn_off env desc w =
         run (assign_value a
                (if isinstance_HonParameterRange (objs (dev w) a)
                 then p_min (objs (dev w) a) else PyStr ''0'')
              # [HonDataUpdateCoordinator_async_set_updated_data env,
              call env AsyncWriteHaState, log Debug])
           (w\<lparr>trace := trace w @ [Log Debug]\<rparr>)"
  using assms unfolding HonConfigSwitchEntity_async_turn_off_def
  by (simp add: run_log run_single getitem_def Let_def del: run.simps)

lemma HonConfigSwitchEntity_async_turn_off_setter_raises:
  assumes "settings (dev w) (key desc) = Some a"
    and "\<not> type_is_HonParameter (objs (dev w) a)"
    and "value_setter w a
           (if isinstance_HonParameterRange (objs (dev w) a)
            then p_min (objs (dev w) a) else PyStr ''0'') (dev w) = Inl e"
  shows "HonConfigSwitchEntity_async_turn_off env desc w = (Some e, w\<lparr>trace := trace w @ [Log Debug]\<rparr>)"
proof -
  let ?w = "w\<lparr>trace := trace w @ [Log Debug]\<rparr>"
  from assms(3) have "value_setter ?w a
           (if isinstance_HonParameterRange (objs (dev w) a)
            then p_min (objs (dev w) a) else PyStr ''0'') (dev ?w) = Inl e"
    by simp
  then show ?thesis
    unfolding HonConfigSwitchEntity_async_turn_off_steps [OF assms(1,2)]
    by (rule run_assign_value_raises)
qed

lemma HonConfigSwitchEntity_async_turn_off_setter_returns:
  assumes "settings (dev w) (key desc) = Some a"
    and "\<not> type_is_HonParameter (objs (dev w) a)"
    and "value_setter w a
           (if isinstance_HonParameterRange (objs (dev w) a)
            then p_min (objs (dev w) a) else PyStr ''0'') (dev w) = Inr d"
  shows "dev (snd (HonConfigSwitchEntity_async_turn_off env desc w)) = d"
proof -
  let ?w = "w\<lparr>trace := trace w @ [Log Debug]\<rparr>"
  let ?ss = "[HonDataUpdateCoordinator_async_set_updated_data env,
              call env AsyncWriteHaState, log Debug]"
  from assms(3) have "value_setter ?w a
           (if isinstance_HonParameterRange (objs (dev w) a)
            then p_min (objs (dev w) a) else PyStr ''0'') (dev ?w) = Inr d"
    by simp
  then have "HonConfigSwitchEntity_async_turn_off env desc w = run ?ss (?w\<lparr>dev := d\<rparr>)"
    unfolding HonConfigSwitchEntity_async_turn_off_steps [OF assms(1,2)]
    by (rule run_assign_value_returns)
  moreover have "dev (snd (run ?ss (?w\<lparr>dev := d\<rparr>))) = dev (?w\<lparr>dev := d\<rparr>)"
    by (rule dev_run) (auto simp: dev_steps)
  ultimately show ?thesis by simp
qed

text \<open>
  C1, as amended. For a \<open>HonSwitchEntity\<close> (setting name \<open>"settings." + key\<close>) and a
  \<open>HonConfigSwitchEntity\<close> (setting name \<open>key\<close>) whose setting exists and is not exactly a
  \<open>HonParameter\<close>: \<open>async_turn_on\<close> hands the setting's \<open>max\<close> to the setting's value
  setter when the setting is a \<open>HonParameterRange\<close> and otherwise \<open>1\<close> (the string \<open>"1"\<close>
  for a config switch); \<open>async_turn_off\<close> hands it the \<open>min\<close>, and otherwise \<open>0\<close> (the
  string \<open>"0"\<close>). When the setter raises, the method raises the same exception at once:
  the device is as it was and no outside call has been made. When the setter returns, the
  device the method leaves is the device the setter left, for every outcome of the calls
  that follow: the method itself writes nothing else to the device.
\<close>

theorem turn_on_off_calls_value_setter:
  "(settings (dev w) (''settings.'' @ key desc) = Some a
      \<and> \<not> type_is_HonParameter (objs (dev w) a) \<longrightarrow>
      (\<forall>e. value_setter w a
              (if isinstance_HonParameterRange (objs (dev w) a)
               then p_max (objs (dev w) a) else PyInt 1) (dev w) = Inl e \<longrightarrow>
           HonSwitchEntity_async_turn_on env desc w =
             (Some e, w\<lparr>trace := trace w @ [Log Debug]\<rparr>))
      \<and> (\<forall>d. value_setter w a
              (if isinstance_HonParameterRange (objs (dev w) a)
               then p_max (objs (dev w) a) else PyInt 1) (dev w) = Inr d \<longrightarrow>
           dev (snd (HonSwitchEntity_async_turn_on env desc w)) = d)
      \<and>
      (\<forall>e. value_setter w a
              (if isinstance_HonParameterRange (objs (dev w) a)
               then p_min (objs (dev w) a) else PyInt 0) (dev w) = Inl e \<longrightarrow>
           HonSwitchEntity_async_turn_off env desc w =
             (Some e, w\<lparr>trace := trace w @ [Log Debug]\<rparr>))
      \<and> (\<forall>d. value_setter w a
              (if isinstance_HonParameterRange (objs (dev w) a)
               then p_min (objs (dev w) a) else PyInt 0) (dev w) = Inr d \<longrightarrow>
           dev (snd (HonSwitchEntity_async_turn_off env desc w)) = d))
   \<and> (settings (dev w) (key cdesc) = Some b
      \<and> \<not> type_is_HonParameter (objs (dev w) b) \<longrightarrow>
      (\<forall>e. value_setter w b
              (if isinstance_HonParameterRange (objs (dev w) b)
               then p_max (objs (dev w) b) else PyStr ''1'') (dev w) = Inl e \<longrightarrow>
           HonConfigSwitchEntity_async_turn_on env cdesc w =
             (Some e, w\<lparr>trace := trace w @ [Log Debug]\<rparr>))
      \<and> (\<forall>d. value_setter w b
              (if isinstance_HonParameterRange (objs (dev w) b)
               then p_max (objs (dev w) b) else PyStr ''1'') (dev w) = Inr d \<longrightarrow>
           dev (snd (HonConfigSwitchEntity_async_turn_on env cdesc w)) = d)
      \<and>
      (\<forall>e. value_setter w b
              (if isinstance_HonParameterRange (objs (dev w) b)
               then p_min (objs (dev w) b) else PyStr ''0'') (dev w) = Inl e \<longrightarrow>
           HonConfigSwitchEntity_async_turn_off env cdesc w =
             (Some e, w\<lparr>trace := trace w @ [Log Debug]\<rparr>))
      \<and> (\<forall>d. value_setter w b
              (if isinstance_HonParameterRange (objs (dev w) b)
               then p_min (objs (dev w) b) else PyStr ''0'') (dev w) = Inr d \<longrightarrow>
           dev (snd (HonConfigSwitchEntity_async_turn_off env cdesc w)) = d))"
  using HonSwitchEntity_async_turn_on_setter_raises [of w desc a _ env]
    HonSwitchEntity_async_turn_on_setter_returns [of w desc a _ env]
    HonSwitchEntity_async_turn_off_setter_raises [of w desc a _ env]
    HonSwitchEntity_async_turn_off_setter_returns [of w desc a _ env]
    HonConfigSwitchEntity_async_turn_on_setter_raises [of w cdesc b _ env]
    HonConfigSwitchEntity_async_turn_on_setter_returns [of w cdesc b _ env]
    HonConfigSwitchEntity_async_turn_off_setter_raises [of w cdesc b _ env]
    HonConfigSwitchEntity_async_turn_off_setter_returns [of w cdesc b _ env]
  by blast

theorem turn_on_off_calls_value_setter_witness:
  "settings (dev example_world) (''settings.'' @ key (HonSwitchEntityDescription ''ecoMode'' ''Eco Mode'' ''mdi:sprout'' (Some ''eco_mode''))) = Some 0
   \<and> \<not> type_is_HonParameter (objs (dev example_world) 0)
   \<and> settings (dev example_world) (key (HonConfigSwitchEntityDescription ''startProgram.prewash'' ''Prewash'' ''mdi:tshirt-v''
           (Some ''prewash''))) = Some 1
   \<and> \<not> type_is_HonParameter (objs (dev example_world) 1)
   \<and> objs (dev (snd (HonSwitchEntity_async_turn_on all_return (HonSwitchEntityDescription ''ecoMode'' ''Eco Mode'' ''mdi:sprout'' (Some ''eco_mode'')) example_world))) 0
       = HonParameterRange (PyInt 1) (PyInt 0) (PyInt 1) [PyInt 0, PyInt 1]
   \<and> objs (dev (snd (HonSwitchEntity_async_turn_off all_return (HonSwitchEntityDescription ''ecoMode'' ''Eco Mode'' ''mdi:sprout'' (Some ''eco_mode'')) example_world))) 0
       = HonParameterRange (PyInt 0) (PyInt 0) (PyInt 1) [PyInt 0, PyInt 1]
   \<and> objs (dev (snd (HonConfigSwitchEntity_async_turn_on all_return (HonConfigSwitchEntityDescription ''startProgram.prewash'' ''Prewash'' ''mdi:tshirt-v''
           (Some ''prewash'')) example_world))) 1
       = OtherParameter (PyStr ''1'') None
   \<and> objs (dev (snd (HonConfigSwitchEntity_async_turn_off all_return (HonConfigSwitchEntityDescription ''startProgram.prewash'' ''Prewash'' ''mdi:tshirt-v''
           (Some ''prewash'')) example_world))) 1
       = OtherParameter (PyStr ''0'') None
   \<and> HonSwitchEntity_async_turn_on all_return (HonSwitchEntityDescription ''ecoMode'' ''Eco Mode'' ''mdi:sprout'' (Some ''eco_mode'')) refusing_world
       = (Some (Exn ValueError ''refused''),
          refusing_world\<lparr>trace := trace refusing_world @ [Log Debug]\<rparr>)
   \<and> HonSwitchEntity_async_turn_off all_return (HonSwitchEntityDescription ''ecoMode'' ''Eco Mode'' ''mdi:sprout'' (Some ''eco_mode'')) refusing_world
       = (Some (Exn ValueError ''refused''),
          refusing_world\<lparr>trace := trace refusing_world @ [Log Debug]\<rparr>)
   \<and> HonConfigSwitchEntity_async_turn_on all_return (HonConfigSwitchEntityDescription ''startProgram.prewash'' ''Prewash'' ''mdi:tshirt-v''
           (Some ''prewash'')) refusing_world
       = (Some (Exn ValueError ''refused''),
          refusing_world\<lparr>trace := trace refusing_world @ [Log Debug]\<rparr>)
   \<and> HonConfigSwitchEntity_async_turn_off all_return (HonConfigSwitchEntityDescription ''startProgram.prewash'' ''Prewash'' ''mdi:tshirt-v''
           (Some ''prewash'')) refusing_world
       = (Some (Exn ValueError ''refused''),
          refusing_world\<lparr>trace := trace refusing_world @ [Log Debug]\<rparr>)"
proof -
  let ?sw = "(HonSwitchEntityDescription ''ecoMode'' ''Eco Mode'' ''mdi:sprout'' (Some ''eco_mode''))"
  let ?cf = "(HonConfigSwitchEntityDescription ''startProgram.prewash'' ''Prewash'' ''mdi:tshirt-v''
           (Some ''prewash''))"
  have pre: "settings (dev example_world) (''settings.'' @ key ?sw) = Some 0"
    "\<not> type_is_HonParameter (objs (dev example_world) 0)"
    "settings (dev example_world) (key ?cf) = Some 1"
    "\<not> type_is_HonParameter (objs (dev example_world) 1)"
    by (simp_all add: example_world_def example_device_def)
  have pre': "settings (dev refusing_world) (''settings.'' @ key ?sw) = Some 0"
    "\<not> type_is_HonParameter (objs (dev refusing_world) 0)"
    "settings (dev refusing_world) (key ?cf) = Some 1"
    "\<not> type_is_HonParameter (objs (dev refusing_world) 1)"
    by (simp_all add: refusing_world_def example_world_def example_device_def)
  have on: "value_setter example_world 0
       (if isinstance_HonParameterRange (objs (dev example_world) 0)
        then p_max (objs (dev example_world) 0) else PyInt 1) (dev example_world)
      = Inr (example_device\<lparr>objs := (objs example_device)
               (0 := HonParameterRange (PyInt 1) (PyInt 0) (PyInt 1) [PyInt 0, PyInt 1])\<rparr>)"
    and off: "value_setter example_world 0
       (if isinstance_HonParameterRange (objs (dev example_world) 0)
        then p_min (objs (dev example_world) 0) else PyInt 0) (dev example_world)
      = Inr (example_device\<lparr>objs := (objs example_device)
               (0 := HonParameterRange (PyInt 0) (PyInt 0) (PyInt 1) [PyInt 0, PyInt 1])\<rparr>)"
    and con: "value_setter example_world 1
       (if isinstance_HonParameterRange (objs (dev example_world) 1)
        then p_max (objs (dev example_world) 1) else PyStr ''1'') (dev example_world)
      = Inr (example_device\<lparr>objs := (objs example_device)
               (1 := OtherParameter (PyStr ''1'') None)\<rparr>)"
    and coff: "value_setter example_world 1
       (if isinstance_HonParameterRange (objs (dev example_world) 1)
        then p_min (objs (dev example_world) 1) else PyStr ''0'') (dev example_world)
      = Inr (example_device\<lparr>objs := (objs example_device)
               (1 := OtherParameter (PyStr ''0'') None)\<rparr>)"
    by (simp_all add: example_world_def example_device_def example_setter_def)
  have refused: "value_setter refusing_world a v d = Inl (Exn ValueError ''refused'')" for a v d
    by (simp add: refusing_world_def)
  note good = turn_on_off_calls_value_setter
    [of example_world ?sw 0 all_return ?cf 1]
  note bad = turn_on_off_calls_value_setter
    [of refusing_world ?sw 0 all_return ?cf 1]
  from good pre on
  have 1: "dev (snd (HonSwitchEntity_async_turn_on all_return ?sw example_world))
      = example_device\<lparr>objs := (objs example_device)
               (0 := HonParameterRange (PyInt 1) (PyInt 0) (PyInt 1) [PyInt 0, PyInt 1])\<rparr>"
    by blast
  from good pre off
  have 2: "dev (snd (HonSwitchEntity_async_turn_off all_return ?sw example_world))
      = example_device\<lparr>objs := (objs example_device)
               (0 := HonParameterRange (PyInt 0) (PyInt 0) (PyInt 1) [PyInt 0, PyInt 1])\<rparr>"
    by blast
  from good pre con
  have 3: "dev (snd (HonConfigSwitchEntity_async_turn_on all_return ?cf example_world))
      = example_device\<lparr>objs := (objs example_device)
               (1 := OtherParameter (PyStr ''1'') None)\<rparr>"
    by blast
  from good pre coff
  have 4: "dev (snd (HonConfigSwitchEntity_async_turn_off all_return ?cf example_world))
      = example_device\<lparr>objs := (objs example_device)
               (1 := OtherParameter (PyStr ''0'') None)\<rparr>"
    by blast
  from bad pre' refused
  have 5: "HonSwitchEntity_async_turn_on all_return ?sw refusing_world
       = (Some (Exn ValueError ''refused''),
          refusing_world\<lparr>trace := trace refusing_world @ [Log Debug]\<rparr>)"
    and 6: "HonSwitchEntity_async_turn_off all_return ?sw refusing_world
       = (Some (Exn ValueError ''refused''),
          refusing_world\<lparr>trace := trace refusing_world @ [Log Debug]\<rparr>)"
    and 7: "HonConfigSwitchEntity_async_turn_on all_return ?cf refusing_world
       = (Some (Exn ValueError ''refused''),
          refusing_world\<lparr>trace := trace refusing_world @ [Log Debug]\<rparr>)"
    and 8: "HonConfigSwitchEntity_async_turn_off all_return ?cf refusing_world
       = (Some (Exn ValueError ''refused''),
          refusing_world\<lparr>trace := trace refusing_world @ [Log Debug]\<rparr>)"
    by blast+
  from pre 1 2 3 4 5 6 7 8 show ?thesis by simp
qed

text \<open>
  C1, as stated, fails: for a range from 0 to 5 whose values are 0, 2 and 4, and a setter
  that refuses a value that is not among them, \<open>async_turn_on\<close> raises \<open>ValueError\<close> and the
  value stays 0; it is not set to the maximum.
\<close>

theorem turn_on_value_refused:
  "settings (dev stepped_world) (''settings.'' @ key (HonSwitchEntityDescription ''ecoMode'' ''Eco Mode'' ''mdi:sprout'' (Some ''eco_mode''))) = Some 0
   \<and> objs (dev stepped_world) 0
       = HonParameterRange (PyInt 0) (PyInt 0) (PyInt 5) [PyInt 0, PyInt 2, PyInt 4]
   \<and> HonSwitchEntity_async_turn_on all_return (HonSwitchEntityDescription ''ecoMode'' ''Eco Mode'' ''mdi:sprout'' (Some ''eco_mode'')) stepped_world
       = (Some (Exn ValueError ''Allowed: min max step But was: value''),
          stepped_world\<lparr>trace := trace stepped_world @ [Log Debug]\<rparr>)
   \<and> p_value (objs (dev (snd (HonSwitchEntity_async_turn_on all_return (HonSwitchEntityDescription ''ecoMode'' ''Eco Mode'' ''mdi:sprout'' (Some ''eco_mode'')) stepped_world))) 0)
       = PyInt 0"
proof -
  let ?sw = "(HonSwitchEntityDescription ''ecoMode'' ''Eco Mode'' ''mdi:sprout'' (Some ''eco_mode''))"
  have s: "settings (dev stepped_world) (''settings.'' @ key ?sw) = Some 0"
    and o: "objs (dev stepped_world) 0
       = HonParameterRange (PyInt 0) (PyInt 0) (PyInt 5) [PyInt 0, PyInt 2, PyInt 4]"
    by (simp_all add: stepped_world_def example_world_def example_device_def)
  from o have t: "\<not> type_is_HonParameter (objs (dev stepped_world) 0)"
    by simp
  have v: "value_setter stepped_world 0
       (if isinstance_HonParameterRange (objs (dev stepped_world) 0)
        then p_max (objs (dev stepped_world) 0) else PyInt 1) (dev stepped_world)
      = Inl (Exn ValueError ''Allowed: min max step But was: value'')"
    by (simp add: o) (simp add: stepped_world_def example_world_def example_setter_def)
  have r: "HonSwitchEntity_async_turn_on all_return ?sw stepped_world
       = (Some (Exn ValueError ''Allowed: min max step But was: value''),
          stepped_world\<lparr>trace := trace stepped_world @ [Log Debug]\<rparr>)"
    using s t v by (rule HonSwitchEntity_async_turn_on_setter_raises)
  from s o r show ?thesis by simp
qed

section \<open>Availability of a setting switch\<close>

text \<open>
  C10. \<open>HonSwitchEntity.available\<close> is \<open>False\<close> whenever the device has a value for
  \<open>remoteCtrValid\<close> that does not equal \<open>1\<close>, or the device's
  \<open>attributes.lastConnEvent.category\<close> is \<open>"DISCONNECTED"\<close>, or the entity's setting exists
  and is a \<open>HonParameterRange\<close> with fewer than two values. When the device has no value
  for \<open>remoteCtrValid\<close>, the result is the one for a device whose \<open>remoteCtrValid\<close> is
  \<open>1\<close>, and the missing value does not block availability: with \<open>super().available\<close>
  true, the category not \<open>"DISCONNECTED"\<close> and a setting that exists and is not a range
  with fewer than two values, \<open>available\<close> is \<open>True\<close>.
\<close>

theorem HonSwitchEntity_available_False:
  "((\<exists>v. items (dev w) ''remoteCtrValid'' = Some v \<and> \<not> py_eq v (PyInt 1))
      \<or> items (dev w) ''attributes.lastConnEvent.category'' = Some (PyStr ''DISCONNECTED'')
      \<or> (\<exists>a. settings (dev w) (''settings.'' @ key desc) = Some a
              \<and> isinstance_HonParameterRange (objs (dev w) a)
              \<and> length (p_values (objs (dev w) a)) < 2)
     \<longrightarrow> fst (HonSwitchEntity_available super_available desc w) = Inr False)
   \<and> (items (dev w) ''remoteCtrValid'' = None \<longrightarrow>
        fst (HonSwitchEntity_available super_available desc w) =
        fst (HonSwitchEntity_available super_available desc
               (w\<lparr>dev := (dev w)\<lparr>items := (items (dev w))(''remoteCtrValid'' \<mapsto> PyInt 1)\<rparr>\<rparr>)))
   \<and> (items (dev w) ''remoteCtrValid'' = None
        \<and> items (dev w) ''attributes.lastConnEvent.category'' \<noteq> Some (PyStr ''DISCONNECTED'')
        \<and> settings (dev w) (''settings.'' @ key desc) = Some a
        \<and> \<not> (isinstance_HonParameterRange (objs (dev w) a)
               \<and> length (p_values (objs (dev w) a)) < 2) \<longrightarrow>
        fst (HonSwitchEntity_available True desc w) = Inr True)"
proof -
  have eq: "py_eq v (PyStr s) \<longleftrightarrow> v = PyStr s" for v s
    by (cases v) auto
  show ?thesis
    by (auto simp add: HonSwitchEntity_available_def get_def getitem_def Let_def eq
        split: option.splits)
qed

theorem HonSwitchEntity_available_False_witness:
  "items (dev disconnected_world) ''attributes.lastConnEvent.category''
     = Some (PyStr ''DISCONNECTED'')
   \<and> items (dev disconnected_world) ''remoteCtrValid'' = None
   \<and> fst (HonSwitchEntity_available True
        (HonSwitchEntityDescription ''ecoMode'' ''Eco Mode'' ''mdi:sprout'' (Some ''eco_mode''))
        disconnected_world) = Inr False
   \<and> fst (HonSwitchEntity_available True
        (HonSwitchEntityDescription ''ecoMode'' ''Eco Mode'' ''mdi:sprout'' (Some ''eco_mode''))
        (disconnected_world
           \<lparr>dev := (dev disconnected_world)
              \<lparr>items := (items (dev disconnected_world))
                 (''remoteCtrValid'' \<mapsto> PyInt 1)\<rparr>\<rparr>)) = Inr False
   \<and> items (dev example_world) ''remoteCtrValid'' = None
   \<and> items (dev example_world) ''attributes.lastConnEvent.category''
       \<noteq> Some (PyStr ''DISCONNECTED'')
   \<and> settings (dev example_world)
        (''settings.'' @ key (HonSwitchEntityDescription ''ecoMode'' ''Eco Mode'' ''mdi:sprout''
           (Some ''eco_mode''))) = Some 0
   \<and> \<not> (isinstance_HonParameterRange (objs (dev example_world) 0)
          \<and> length (p_values (objs (dev example_world) 0)) < 2)
   \<and> fst (HonSwitchEntity_available True
        (HonSwitchEntityDescription ''ecoMode'' ''Eco Mode'' ''mdi:sprout'' (Some ''eco_mode''))
        example_world) = Inr True"
proof -
  let ?d = "HonSwitchEntityDescription ''ecoMode'' ''Eco Mode'' ''mdi:sprout'' (Some ''eco_mode'')"
  have disconnected: "items (dev disconnected_world) ''attributes.lastConnEvent.category''
      = Some (PyStr ''DISCONNECTED'')"
    by (simp add: disconnected_world_def disconnected_device_def)
  have absent: "items (dev disconnected_world) ''remoteCtrValid'' = None"
    by (simp add: disconnected_world_def disconnected_device_def)
  note inst = HonSwitchEntity_available_False [of disconnected_world ?d True]
  from disconnected inst
  have unavailable: "fst (HonSwitchEntity_available True ?d disconnected_world) = Inr False"
    by blast
  from absent inst
  have same: "fst (HonSwitchEntity_available True ?d disconnected_world) =
      fst (HonSwitchEntity_available True ?d
        (disconnected_world\<lparr>dev := (dev disconnected_world)
           \<lparr>items := (items (dev disconnected_world))(''remoteCtrValid'' \<mapsto> PyInt 1)\<rparr>\<rparr>))"
    by blast
  have free: "items (dev example_world) ''remoteCtrValid'' = None"
    "items (dev example_world) ''attributes.lastConnEvent.category''
       \<noteq> Some (PyStr ''DISCONNECTED'')"
    "settings (dev example_world) (''settings.'' @ key ?d) = Some 0"
    "\<not> (isinstance_HonParameterRange (objs (dev example_world) 0)
          \<and> length (p_values (objs (dev example_world) 0)) < 2)"
    by (simp_all add: example_world_def example_device_def)
  from free HonSwitchEntity_available_False [of example_world ?d True 0]
  have available: "fst (HonSwitchEntity_available True ?d example_world) = Inr True"
    by blast
  from unavailable same disconnected absent free available show ?thesis by metis
qed

section \<open>The table \<open>SWITCHES\<close> after the module is loaded\<close>

lemma literal_WD: "\<exists>wd. map_of SWITCHES_literal ''WD'' = Some wd"
  by (simp add: SWITCHES_literal_def)

lemma literal_WM: "\<exists>wm. map_of SWITCHES_literal ''WM'' = Some wm"
  by (simp add: SWITCHES_literal_def)

lemma literal_TD: "\<exists>td. map_of SWITCHES_literal ''TD'' = Some td"
  by (simp add: SWITCHES_literal_def)

lemma module_load_returns:
  assumes "env UniqueEntities = None"
    and "map_of SWITCHES_literal ''WD'' = Some wd"
    and "map_of SWITCHES_literal ''WM'' = Some wm"
    and "map_of SWITCHES_literal ''TD'' = Some td"
  shows "module_load env unique w =
     (None, w\<lparr>trace := trace w @ [Call UniqueEntities, Call UniqueEntities],
              global_SWITCHES := (map_of SWITCHES_literal)(''WD'' \<mapsto> unique (unique wd wm) td)\<rparr>)"
  using assms
  by (simp add: module_load_def assign_unique_entities_def getitem_def call_def raise_def)

lemma assign_unique_entities_other:
  "t \<noteq> k \<Longrightarrow>
   global_SWITCHES (snd (assign_unique_entities env unique k k' w)) t = global_SWITCHES w t"
  by (simp add: assign_unique_entities_def getitem_def call_def raise_def
      split: option.splits)

lemma module_load_other:
  assumes "t \<noteq> ''WD''"
  shows "global_SWITCHES (snd (module_load env unique w)) t = map_of SWITCHES_literal t"
proof -
  let ?w0 = "w\<lparr>global_SWITCHES := map_of SWITCHES_literal\<rparr>"
  obtain r1 w1 where 1: "assign_unique_entities env unique ''WD'' ''WM'' ?w0 = (r1, w1)"
    by (cases "assign_unique_entities env unique ''WD'' ''WM'' ?w0")
  have g1: "global_SWITCHES w1 t = map_of SWITCHES_literal t"
    using assign_unique_entities_other [OF assms, of env unique "''WM''" ?w0] 1 by simp
  obtain r2 w2 where 2: "assign_unique_entities env unique ''WD'' ''TD'' w1 = (r2, w2)"
    by (cases "assign_unique_entities env unique ''WD'' ''TD'' w1")
  have g2: "global_SWITCHES w2 t = map_of SWITCHES_literal t"
    using assign_unique_entities_other [OF assms, of env unique "''TD''" w1] 2 g1 by simp
  show ?thesis
    using 1 2 g1 g2 by (cases r1; cases r2) (simp_all add: module_load_def)
qed


lemma kept_log: "global_SWITCHES (snd (log l w)) = global_SWITCHES w"
  by (simp add: log_def)

lemma kept_call: "global_SWITCHES (snd (call env c w)) = global_SWITCHES w"
  by (simp add: call_def)

lemma kept_raise: "global_SWITCHES (snd (raise e w)) = global_SWITCHES w"
  by (simp add: raise_def)

lemma kept_run:
  assumes "\<And>s w. s \<in> set ss \<Longrightarrow> global_SWITCHES (snd (s w)) = global_SWITCHES w"
  shows "global_SWITCHES (snd (run ss w)) = global_SWITCHES w"
  using assms
proof (induction ss arbitrary: w)
  case Nil
  then show ?case by simp
next
  case (Cons s ss)
  obtain r w' where sw: "s w = (r, w')" by (cases "s w")
  have "global_SWITCHES (snd (s w)) = global_SWITCHES w" using Cons.prems by simp
  with sw have w': "global_SWITCHES w' = global_SWITCHES w" by simp
  show ?case
  proof (cases r)
    case None
    have "global_SWITCHES (snd (run ss w')) = global_SWITCHES w'"
      using Cons.IH Cons.prems by simp
    with None sw w' show ?thesis by simp
  next
    case (Some e)
    with sw w' show ?thesis by simp
  qed
qed

lemma kept_try_except:
  assumes "\<And>w. global_SWITCHES (snd (body w)) = global_SWITCHES w"
    and "\<And>e w. global_SWITCHES (snd (handler e w)) = global_SWITCHES w"
  shows "global_SWITCHES (snd (try_except_Exception body handler w)) = global_SWITCHES w"
proof -
  obtain r w' where bw: "body w = (r, w')" by (cases "body w")
  have "global_SWITCHES (snd (body w)) = global_SWITCHES w" by (rule assms(1))
  with bw have w': "global_SWITCHES w' = global_SWITCHES w" by simp
  show ?thesis
  proof (cases r)
    case None
    with bw w' show ?thesis by (simp add: try_except_Exception_def)
  next
    case (Some e)
    have "global_SWITCHES (snd (handler e w')) = global_SWITCHES w'" by (rule assms(2))
    with Some bw w' show ?thesis by (simp add: try_except_Exception_def)
  qed
qed

lemma kept_coordinator:
  "global_SWITCHES (snd (HonDataUpdateCoordinator_async_set_updated_data env w))
   = global_SWITCHES w"
  unfolding HonDataUpdateCoordinator_async_set_updated_data_def
  by (auto intro!: kept_run kept_try_except simp: kept_log kept_call kept_raise
      simp del: run.simps)

lemma kept_send_command: "global_SWITCHES (snd (send_command env k w)) = global_SWITCHES w"
  by (simp add: send_command_def kept_call kept_raise)

lemma kept_assign_value: "global_SWITCHES (snd (assign_value a v w)) = global_SWITCHES w"
  by (simp add: assign_value_def split: sum.splits)

lemma kept_assign_attribute:
  "global_SWITCHES (snd (assign_attribute k v w)) = global_SWITCHES w"
  by (simp add: assign_attribute_def)

lemmas kept_steps = kept_log kept_call kept_raise kept_coordinator kept_send_command
  kept_assign_value kept_assign_attribute

lemma kept_HonSwitchEntity_is_on:
  "global_SWITCHES (snd (HonSwitchEntity_is_on desc w)) = global_SWITCHES w"
  by (simp add: HonSwitchEntity_is_on_def kept_log Let_def)

lemma kept_HonControlSwitchEntity_is_on:
  "global_SWITCHES (snd (HonControlSwitchEntity_is_on desc w)) = global_SWITCHES w"
  by (simp add: HonControlSwitchEntity_is_on_def kept_log Let_def)

lemma kept_HonConfigSwitchEntity_is_on:
  "global_SWITCHES (snd (HonConfigSwitchEntity_is_on desc w)) = global_SWITCHES w"
  by (simp add: HonConfigSwitchEntity_is_on_def kept_log Let_def split: sum.splits)

lemma kept_store_is_on:
  assumes "\<And>w. global_SWITCHES (snd (is_on w)) = global_SWITCHES w"
  shows "global_SWITCHES (snd (store_is_on is_on w)) = global_SWITCHES w"
proof -
  obtain r w' where i: "is_on w = (r, w')" by (cases "is_on w")
  have "global_SWITCHES (snd (is_on w)) = global_SWITCHES w" by (rule assms)
  with i show ?thesis by (cases r) (simp_all add: store_is_on_def)
qed

lemma kept_HonSwitchEntity_async_turn_on:
  "global_SWITCHES (snd (HonSwitchEntity_async_turn_on env desc w)) = global_SWITCHES w"
  unfolding HonSwitchEntity_async_turn_on_def
  by (auto intro!: kept_run simp: kept_steps Let_def simp del: run.simps split: sum.splits)

lemma kept_HonSwitchEntity_async_turn_off:
  "global_SWITCHES (snd (HonSwitchEntity_async_turn_off env desc w)) = global_SWITCHES w"
  unfolding HonSwitchEntity_async_turn_off_def
  by (auto intro!: kept_run simp: kept_steps Let_def simp del: run.simps split: sum.splits)

lemma kept_HonConfigSwitchEntity_async_turn_on:
  "global_SWITCHES (snd (HonConfigSwitchEntity_async_turn_on env desc w)) = global_SWITCHES w"
  unfolding HonConfigSwitchEntity_async_turn_on_def
  by (auto intro!: kept_run simp: kept_steps Let_def simp del: run.simps split: sum.splits)

lemma kept_HonConfigSwitchEntity_async_turn_off:
  "global_SWITCHES (snd (HonConfigSwitchEntity_async_turn_off env desc w)) = global_SWITCHES w"
  unfolding HonConfigSwitchEntity_async_turn_off_def
  by (auto intro!: kept_run simp: kept_steps Let_def simp del: run.simps split: sum.splits)

lemma kept_HonControlSwitchEntity_async_turn_on:
  "global_SWITCHES (snd (HonControlSwitchEntity_async_turn_on env desc w)) = global_SWITCHES w"
  unfolding HonControlSwitchEntity_async_turn_on_def
  by (auto intro!: kept_run simp: kept_steps simp del: run.simps)

lemma kept_HonControlSwitchEntity_async_turn_off:
  "global_SWITCHES (snd (HonControlSwitchEntity_async_turn_off env desc w)) = global_SWITCHES w"
  unfolding HonControlSwitchEntity_async_turn_off_def
  by (auto intro!: kept_run simp: kept_steps simp del: run.simps)

lemma kept_HonSwitchEntity_available:
  "global_SWITCHES (snd (HonSwitchEntity_available super_available desc w)) = global_SWITCHES w"
  by (simp add: HonSwitchEntity_available_def kept_log Let_def split: sum.splits)

lemma kept_HonControlSwitchEntity_available:
  "global_SWITCHES (snd (HonControlSwitchEntity_available int_of_str super_available w))
   = global_SWITCHES w"
  by (simp add: HonControlSwitchEntity_available_def kept_log split: sum.splits)

lemma kept_HonControlSwitchEntity_extra_state_attributes:
  "global_SWITCHES (snd (HonControlSwitchEntity_extra_state_attributes now1 now2 w))
   = global_SWITCHES w"
  by (simp add: HonControlSwitchEntity_extra_state_attributes_def kept_log Let_def
      split: option.splits)

lemma kept_HonSwitchEntity_handle_coordinator_update:
  "global_SWITCHES (snd (HonSwitchEntity_handle_coordinator_update env desc update w))
   = global_SWITCHES w"
  unfolding HonSwitchEntity_handle_coordinator_update_def
  by (auto intro!: kept_run kept_try_except kept_store_is_on
      simp: kept_steps kept_HonSwitchEntity_is_on simp del: run.simps)

lemma kept_HonConfigSwitchEntity_handle_coordinator_update:
  "global_SWITCHES (snd (HonConfigSwitchEntity_handle_coordinator_update env desc update w))
   = global_SWITCHES w"
  unfolding HonConfigSwitchEntity_handle_coordinator_update_def
  by (auto intro!: kept_run kept_try_except kept_store_is_on
      simp: kept_steps kept_HonConfigSwitchEntity_is_on simp del: run.simps)

lemma kept_HonDataUpdateCoordinator_init:
  "global_SWITCHES (snd (HonDataUpdateCoordinator_init env nm w)) = global_SWITCHES w"
  unfolding HonDataUpdateCoordinator_init_def
  by (auto intro!: kept_run simp: kept_steps simp del: run.simps)

lemma kept_make_threadsafe_callback:
  "global_SWITCHES (snd (make_threadsafe_callback env coordinator w)) = global_SWITCHES w"
  by (simp add: make_threadsafe_callback_result split: option.splits)

lemma kept_forward:
  "global_SWITCHES (snd (async_forward_entry_setups_with_error_handling env w))
   = global_SWITCHES w"
  by (simp add: forward_result split: option.splits)

lemma kept_platform_async_setup_entry:
  "global_SWITCHES (snd (platform_async_setup_entry env cs w)) = global_SWITCHES w"
  by (simp add: platform_async_setup_entry_def call_def raise_def Let_def
      split: sum.splits option.splits)

lemma kept_async_unload_entry:
  "global_SWITCHES (snd (async_unload_entry env cs unload w)) = global_SWITCHES w"
proof -
  have "global_SWITCHES (snd (run ss w)) = global_SWITCHES w
    \<Longrightarrow> global_SWITCHES (snd (case run ss w of
          (None, h') \<Rightarrow> (Inr unload, h') | (Some e, h') \<Rightarrow> (Inl e, h'))) = global_SWITCHES w"
    for ss :: "hass step list"
    by (cases "run ss w") (auto split: option.splits)
  then show ?thesis
    unfolding async_unload_entry_def
    by (rule) (auto intro!: kept_run simp: kept_steps call_def raise_def log_def
        simp del: run.simps split: sum.splits option.splits)
qed

lemma kept_async_setup_entry:
  "global_SWITCHES (snd (async_setup_entry env cs created w)) = global_SWITCHES w"
proof -
  have "global_SWITCHES (snd (run ss w)) = global_SWITCHES w
    \<Longrightarrow> global_SWITCHES (snd (case run ss w of
          (None, h') \<Rightarrow> (Inr True, h') | (Some e, h') \<Rightarrow> (Inl e, h'))) = global_SWITCHES w"
    for ss :: "hass step list"
    by (cases "run ss w") (auto split: option.splits)
  then show ?thesis
    unfolding async_setup_entry_def
    by (rule) (auto intro!: kept_run kept_try_except
        simp: kept_steps kept_forward kept_HonDataUpdateCoordinator_init call_def raise_def
          run_map_log Let_def
        simp del: run.simps split: sum.splits option.splits)
qed

text \<open>
  C3, as amended. Loading the module binds the literal to \<open>SWITCHES\<close> and then assigns to
  \<open>SWITCHES["WD"]\<close> twice, each time the result of a call of \<open>unique_entities\<close>: when
  these calls return, the table is the literal with the entry for \<open>"WD"\<close> replaced by
  \<open>unique_entities(unique_entities(WD, WM), TD)\<close> of the literal's entries. For every
  appliance type other than \<open>"WD"\<close> the entry is the literal's, whatever the calls do. After
  the load nothing assigns to \<open>SWITCHES\<close>: every method of the three entity classes and of
  the coordinator, the thread-safe callback and the setup and unload functions of both
  modules leave the table as they found it, from every state and whether they return or
  raise.
\<close>

theorem SWITCHES_after_load:
  "(env UniqueEntities = None \<longrightarrow>
      (\<exists>wd wm td.
         map_of SWITCHES_literal ''WD'' = Some wd
         \<and> map_of SWITCHES_literal ''WM'' = Some wm
         \<and> map_of SWITCHES_literal ''TD'' = Some td
         \<and> module_load env unique w =
             (None, w\<lparr>trace := trace w @ [Call UniqueEntities, Call UniqueEntities],
                      global_SWITCHES :=
                        (map_of SWITCHES_literal)(''WD'' \<mapsto> unique (unique wd wm) td)\<rparr>)))
   \<and> (t \<noteq> ''WD'' \<longrightarrow>
        global_SWITCHES (snd (module_load env unique w)) t = map_of SWITCHES_literal t)
   \<and> keeps_SWITCHES (HonSwitchEntity_is_on desc)
   \<and> keeps_SWITCHES (HonSwitchEntity_async_turn_on env desc)
   \<and> keeps_SWITCHES (HonSwitchEntity_async_turn_off env desc)
   \<and> keeps_SWITCHES (HonSwitchEntity_available super_available desc)
   \<and> keeps_SWITCHES (HonSwitchEntity_handle_coordinator_update env desc update)
   \<and> keeps_SWITCHES (HonControlSwitchEntity_is_on desc)
   \<and> keeps_SWITCHES (HonControlSwitchEntity_async_turn_on env desc)
   \<and> keeps_SWITCHES (HonControlSwitchEntity_async_turn_off env desc)
   \<and> keeps_SWITCHES (HonControlSwitchEntity_available int_of_str super_available)
   \<and> keeps_SWITCHES (HonControlSwitchEntity_extra_state_attributes now1 now2)
   \<and> keeps_SWITCHES (HonConfigSwitchEntity_is_on desc)
   \<and> keeps_SWITCHES (HonConfigSwitchEntity_async_turn_on env desc)
   \<and> keeps_SWITCHES (HonConfigSwitchEntity_async_turn_off env desc)
   \<and> keeps_SWITCHES (HonConfigSwitchEntity_handle_coordinator_update env desc update)
   \<and> keeps_SWITCHES (HonDataUpdateCoordinator_init env name')
   \<and> keeps_SWITCHES (HonDataUpdateCoordinator_async_set_updated_data env :: hass step)
   \<and> keeps_SWITCHES (async_setup_entry env cs created)
   \<and> keeps_SWITCHES (make_threadsafe_callback env coordinator)
   \<and> keeps_SWITCHES (async_forward_entry_setups_with_error_handling env)
   \<and> keeps_SWITCHES (async_unload_entry env cs unload)
   \<and> keeps_SWITCHES (platform_async_setup_entry env cs)"
proof -
  obtain wd wm td where l: "map_of SWITCHES_literal ''WD'' = Some wd"
    "map_of SWITCHES_literal ''WM'' = Some wm" "map_of SWITCHES_literal ''TD'' = Some td"
    using literal_WD literal_WM literal_TD by blast
  have load: "env UniqueEntities = None \<longrightarrow>
      (\<exists>wd wm td.
         map_of SWITCHES_literal ''WD'' = Some wd
         \<and> map_of SWITCHES_literal ''WM'' = Some wm
         \<and> map_of SWITCHES_literal ''TD'' = Some td
         \<and> module_load env unique w =
             (None, w\<lparr>trace := trace w @ [Call UniqueEntities, Call UniqueEntities],
                      global_SWITCHES :=
                        (map_of SWITCHES_literal)(''WD'' \<mapsto> unique (unique wd wm) td)\<rparr>))"
    using l module_load_returns [of env wd wm td unique w] by blast
  have other: "t \<noteq> ''WD'' \<longrightarrow>
        global_SWITCHES (snd (module_load env unique w)) t = map_of SWITCHES_literal t"
    using module_load_other [of t env unique w] by blast
  show ?thesis
    unfolding keeps_SWITCHES_def
    using load other
    by (simp add: kept_HonSwitchEntity_is_on kept_HonSwitchEntity_async_turn_on
        kept_HonSwitchEntity_async_turn_off kept_HonSwitchEntity_available
        kept_HonSwitchEntity_handle_coordinator_update kept_HonControlSwitchEntity_is_on
        kept_HonControlSwitchEntity_async_turn_on kept_HonControlSwitchEntity_async_turn_off
        kept_HonControlSwitchEntity_available
        kept_HonControlSwitchEntity_extra_state_attributes kept_HonConfigSwitchEntity_is_on
        kept_HonConfigSwitchEntity_async_turn_on kept_HonConfigSwitchEntity_async_turn_off
        kept_HonConfigSwitchEntity_handle_coordinator_update
        kept_HonDataUpdateCoordinator_init kept_coordinator kept_async_setup_entry
        kept_make_threadsafe_callback kept_forward kept_async_unload_entry
        kept_platform_async_setup_entry)
qed

theorem SWITCHES_after_load_witness:
  "all_return UniqueEntities = None
   \<and> ''WM'' \<noteq> ''WD''
   \<and> fst (module_load all_return (\<lambda>base_entities new_entities. base_entities @ new_entities)
          before_load) = None
   \<and> global_SWITCHES (snd (module_load all_return
          (\<lambda>base_entities new_entities. base_entities @ new_entities) before_load)) ''WM''
       = map_of SWITCHES_literal ''WM''
   \<and> global_SWITCHES (snd (HonControlSwitchEntity_async_turn_on all_return
          (HonControlSwitchEntityDescription ''active'' ''Washing Machine''
             ''mdi:washing-machine'' ''startProgram'' ''stopProgram'' (Some ''washing_machine''))
          example_world)) = map_of SWITCHES_literal"
proof -
  have r: "all_return UniqueEntities = None" by (simp add: all_return_def)
  have n: "''WM'' \<noteq> ''WD''" by simp
  note inst = SWITCHES_after_load [where env = all_return
      and unique = "\<lambda>base_entities new_entities. base_entities @ new_entities"
      and w = before_load and t = "''WM''"
      and desc = "HonControlSwitchEntityDescription ''active'' ''Washing Machine''
             ''mdi:washing-machine'' ''startProgram'' ''stopProgram'' (Some ''washing_machine'')"]
  from inst [THEN conjunct1] r obtain wd wm td where "module_load all_return
      (\<lambda>base_entities new_entities. base_entities @ new_entities) before_load =
        (None, before_load\<lparr>trace := trace before_load @ [Call UniqueEntities, Call UniqueEntities],
                 global_SWITCHES := (map_of SWITCHES_literal)(''WD'' \<mapsto> (wd @ wm) @ td)\<rparr>)"
    by blast
  then have 1: "fst (module_load all_return
      (\<lambda>base_entities new_entities. base_entities @ new_entities) before_load) = None"
    by simp
  from inst [THEN conjunct2, THEN conjunct1] n
  have 2: "global_SWITCHES (snd (module_load all_return
          (\<lambda>base_entities new_entities. base_entities @ new_entities) before_load)) ''WM''
       = map_of SWITCHES_literal ''WM''"
    by blast
  from inst [THEN conjunct2, THEN conjunct2, THEN conjunct2, THEN conjunct2, THEN conjunct2,
      THEN conjunct2, THEN conjunct2, THEN conjunct2, THEN conjunct1]
  have "keeps_SWITCHES (HonControlSwitchEntity_async_turn_on all_return
          (HonControlSwitchEntityDescription ''active'' ''Washing Machine''
             ''mdi:washing-machine'' ''startProgram'' ''stopProgram'' (Some ''washing_machine'')))" .
  then have 3: "global_SWITCHES (snd (HonControlSwitchEntity_async_turn_on all_return
          (HonControlSwitchEntityDescription ''active'' ''Washing Machine''
             ''mdi:washing-machine'' ''startProgram'' ''stopProgram'' (Some ''washing_machine''))
          example_world)) = map_of SWITCHES_literal"
    by (simp add: keeps_SWITCHES_def example_world_def)
  from r n 1 2 3 show ?thesis by blast
qed

text \<open>
  C3, as stated, fails: the entry for \<open>"WD"\<close> is computed again after the literal is bound.
  Loading the module from the empty state calls \<open>unique_entities\<close> twice, and the entry it
  leaves for \<open>"WD"\<close> is what the second call returned, whatever function
  \<open>unique_entities\<close> is.
\<close>

theorem module_load_computes_WD_twice:
  "\<forall>unique.
     module_load all_return unique before_load =
       (None, before_load\<lparr>trace := [Call UniqueEntities, Call UniqueEntities],
                          global_SWITCHES :=
                            (map_of SWITCHES_literal)(''WD'' \<mapsto>
                               unique (unique (the (map_of SWITCHES_literal ''WD''))
                                              (the (map_of SWITCHES_literal ''WM'')))
                                      (the (map_of SWITCHES_literal ''TD'')))\<rparr>)"
proof
  fix unique :: "description list \<Rightarrow> description list \<Rightarrow> description list"
  obtain wd wm td where l: "map_of SWITCHES_literal ''WD'' = Some wd"
    "map_of SWITCHES_literal ''WM'' = Some wm" "map_of SWITCHES_literal ''TD'' = Some td"
    using literal_WD literal_WM literal_TD by blast
  show "module_load all_return unique before_load =
       (None, before_load\<lparr>trace := [Call UniqueEntities, Call UniqueEntities],
                          global_SWITCHES :=
                            (map_of SWITCHES_literal)(''WD'' \<mapsto>
                               unique (unique (the (map_of SWITCHES_literal ''WD''))
                                              (the (map_of SWITCHES_literal ''WM'')))
                                      (the (map_of SWITCHES_literal ''TD'')))\<rparr>)"
    using module_load_returns [of all_return wd wm td unique before_load] l
    by (simp add: all_return_def before_load_def)
qed

end
